theory Spec2Isabelle
  imports Complex_Main "HOL-Library.Word" "HOL-Library.Sublist"
begin

section \<open>Data model\<close>

text \<open>
  Python \<open>str\<close> is modelled as \<open>string\<close>, \<open>bytes\<close> as a list of 8-bit words,
  Python \<open>int\<close> as \<open>int\<close>. Python \<open>float\<close> (delays, clock readings) is modelled as
  \<open>real\<close>: rounding is abstracted away.
\<close>

type_synonym bytes = "8 word list"

type_synonym handle = nat

text \<open>
  The exceptions the replicator raises, catches or can be handed by a backend. The type stands
  for the instances of Python's \<open>Exception\<close>; every constructor carries \<open>str(e)\<close>.
  \<open>ClientError\<close> carries \<open>e.response['Error']['Code']\<close> first. \<open>GoogleCloudError\<close>
  covers its subclasses (\<open>NotFound\<close> among them); \<open>OtherException\<close> is any exception class
  the replicator does not name (a transport error, a timeout, a \<open>KeyError\<close>, ...).
  Signals that derive from \<open>BaseException\<close> only (\<open>KeyboardInterrupt\<close>, \<open>SystemExit\<close>)
  are no failures of a backend and are not modelled.
\<close>

datatype exn =
    ReplicationError string
  | S3DownloadError string
  | GCSUploadError string
  | GoogleCloudError string
  | ClientError string string
  | NoCredentialsError string
  | ValueError string
  | TypeError string
  | OtherException string

fun str_exn :: "exn \<Rightarrow> string" where
  "str_exn (ReplicationError m) = m"
| "str_exn (S3DownloadError m) = m"
| "str_exn (GCSUploadError m) = m"
| "str_exn (GoogleCloudError m) = m"
| "str_exn (ClientError code m) = m"
| "str_exn (NoCredentialsError m) = m"
| "str_exn (ValueError m) = m"
| "str_exn (TypeError m) = m"
| "str_exn (OtherException m) = m"

text \<open>\<open>config.py\<close>: the dataclass \<open>Config\<close>.\<close>

record Config =
  aws_access_key_id :: string
  aws_secret_access_key :: string
  aws_region :: string
  gcp_credentials_path :: "string option"
  gcp_project_id :: string
  target_gcs_bucket :: string
  host :: string
  port :: int
  debug :: bool
  max_retries :: int
  retry_delay :: real
  retry_backoff :: real
  chunk_size :: int

text \<open>
  Every call the replicator makes to the outside world (the two object stores, the clock)
  is recorded, with its arguments, in a history, oldest call first. \<open>Invoke\<close> is the call
  of an opaque operation wrapped by the retry decorator.
\<close>

datatype event =
    Boto3Client string string string
  | StorageClient string
  | ClientBucket string
  | BlobExists string
  | HeadObject string string
  | GetObject string string
  | UploadFromFile bytes string "(string \<times> string) list option"
  | TimeTime
  | TimeSleep real
  | Invoke

text \<open>
  The outside world is a family of oracles: each answers a call from the whole history
  up to and including that call, so an answer may depend on the arguments, on the number of
  earlier attempts and on the time slept. An answer \<open>Inl e\<close> is the exception the call
  raises (or the one raised when the replicator takes a malformed answer apart, as in
  \<open>response['ContentLength']\<close>). \<open>head_object\<close> answers with the content length and
  \<open>get_object\<close> with the object body: the finite sequence of the answers of its successive
  \<open>read(amt)\<close> calls; past its end, \<open>read\<close> returns the empty chunk. Creating a blob handle
  (\<open>bucket.blob(name)\<close>) calls no backend and is not recorded.
\<close>

type_synonym body = "(int \<Rightarrow> exn + bytes) list"

record env =
  boto3_client :: "event list \<Rightarrow> exn + handle"
  storage_Client :: "event list \<Rightarrow> exn + handle"
  client_bucket :: "event list \<Rightarrow> exn + handle"
  blob_exists :: "event list \<Rightarrow> exn + bool"
  head_object :: "event list \<Rightarrow> exn + int"
  get_object :: "event list \<Rightarrow> exn + body"
  upload_from_file :: "event list \<Rightarrow> exn + unit"
  clock :: "event list \<Rightarrow> real"

text \<open>
  The replicator object (its three lazily initialised attributes \<open>_s3_client\<close>,
  \<open>_gcs_client\<close>, \<open>_target_bucket\<close>) together with the history of its calls.
\<close>

record state =
  s3_client_attr :: "handle option"
  gcs_client_attr :: "handle option"
  target_bucket_attr :: "handle option"
  history :: "event list"

definition init_state :: state where
  "init_state =
     \<lparr>s3_client_attr = None, gcs_client_attr = None, target_bucket_attr = None, history = []\<rparr>"

definition call :: "(event list \<Rightarrow> 'r) \<Rightarrow> event \<Rightarrow> state \<Rightarrow> 'r \<times> state" where
  "call oracle ev st = (oracle (history st @ [ev]), st\<lparr>history := history st @ [ev]\<rparr>)"

text \<open>Values of the result dictionary, which is kept as an association list.\<close>

datatype pyval = PyStr string | PyFloat real | PyInt int

type_synonym dict = "(string \<times> pyval) list"

section \<open>utils.py\<close>

definition sanitize_gcs_object_name :: "string \<Rightarrow> string" where
  "sanitize_gcs_object_name s3_key = dropWhile (\<lambda>c. c = CHR ''/'') s3_key"

text \<open>
  The two calls of the module \<open>time\<close>. \<open>time.sleep\<close> raises \<open>ValueError\<close> on a
  negative argument; \<open>time.time\<close> reads the clock.
\<close>

definition time_sleep :: "real \<Rightarrow> state \<Rightarrow> (exn + unit) \<times> state" where
  "time_sleep d st =
     (if d < 0 then (Inl (ValueError ''sleep length must be non-negative''), st)
      else (Inr (), st\<lparr>history := history st @ [TimeSleep d]\<rparr>))"

definition time_time :: "env \<Rightarrow> state \<Rightarrow> real \<times> state" where
  "time_time E st = call (clock E) TimeTime st"

text \<open>\<open>raise last_exception\<close>: raising \<open>None\<close> is a \<open>TypeError\<close>.\<close>

definition raise_last :: "exn option \<Rightarrow> exn" where
  "raise_last last_exception =
     (case last_exception of
        None \<Rightarrow> TypeError ''exceptions must derive from BaseException''
      | Some e \<Rightarrow> e)"

text \<open>
  The loop of \<open>retry_with_backoff\<close>'s wrapper over the remaining values of
  \<open>range(max_retries + 1)\<close>, with the loop variables \<open>current_delay\<close> and
  \<open>last_exception\<close>.
\<close>

fun retry_loop ::
  "int \<Rightarrow> real \<Rightarrow> (state \<Rightarrow> (exn + 'a) \<times> state) \<Rightarrow> int list \<Rightarrow> real \<Rightarrow> exn option \<Rightarrow> state
    \<Rightarrow> (exn + 'a) \<times> state" where
  "retry_loop max_retries' backoff func [] current_delay last_exception st =
     (Inl (raise_last last_exception), st)"
| "retry_loop max_retries' backoff func (attempt # rest) current_delay last_exception st =
     (case func st of
        (Inr v, st1) \<Rightarrow> (Inr v, st1)
      | (Inl e, st1) \<Rightarrow>
          if attempt = max_retries' then (Inl (raise_last (Some e)), st1)
          else (case time_sleep current_delay st1 of
                  (Inl e2, st2) \<Rightarrow> (Inl e2, st2)
                | (Inr u, st2) \<Rightarrow>
                    retry_loop max_retries' backoff func rest (current_delay * backoff) (Some e) st2))"

definition retry_with_backoff ::
  "int \<Rightarrow> real \<Rightarrow> real \<Rightarrow> (state \<Rightarrow> (exn + 'a) \<times> state) \<Rightarrow> state \<Rightarrow> (exn + 'a) \<times> state" where
  "retry_with_backoff max_retries' delay backoff func st =
     retry_loop max_retries' backoff func [0..max_retries'] delay None st"

section \<open>replicator.py\<close>

subsection \<open>Lazily initialised clients\<close>

definition s3_client :: "env \<Rightarrow> Config \<Rightarrow> state \<Rightarrow> (exn + handle) \<times> state" where
  "s3_client E cfg st =
     (case s3_client_attr st of
        Some c \<Rightarrow> (Inr c, st)
      | None \<Rightarrow>
          (case call (boto3_client E)
                  (Boto3Client (aws_access_key_id cfg) (aws_secret_access_key cfg) (aws_region cfg)) st of
             (Inr c, st1) \<Rightarrow> (Inr c, st1\<lparr>s3_client_attr := Some c\<rparr>)
           | (Inl e, st1) \<Rightarrow>
               (case e of
                  NoCredentialsError m \<Rightarrow>
                    (Inl (ReplicationError (''AWS credentials not configured: '' @ str_exn e)), st1)
                | _ \<Rightarrow> (Inl e, st1))))"

definition gcs_client :: "env \<Rightarrow> Config \<Rightarrow> state \<Rightarrow> (exn + handle) \<times> state" where
  "gcs_client E cfg st =
     (case gcs_client_attr st of
        Some c \<Rightarrow> (Inr c, st)
      | None \<Rightarrow>
          (case call (storage_Client E) (StorageClient (gcp_project_id cfg)) st of
             (Inr c, st1) \<Rightarrow> (Inr c, st1\<lparr>gcs_client_attr := Some c\<rparr>)
           | (Inl e, st1) \<Rightarrow>
               (Inl (ReplicationError (''GCS client initialization failed: '' @ str_exn e)), st1)))"

definition target_bucket :: "env \<Rightarrow> Config \<Rightarrow> state \<Rightarrow> (exn + handle) \<times> state" where
  "target_bucket E cfg st =
     (case target_bucket_attr st of
        Some b \<Rightarrow> (Inr b, st)
      | None \<Rightarrow>
          (case gcs_client E cfg st of
             (Inl e, st1) \<Rightarrow>
               (Inl (ReplicationError (''Failed to access target GCS bucket: '' @ str_exn e)), st1)
           | (Inr c, st1) \<Rightarrow>
               (case call (client_bucket E) (ClientBucket (target_gcs_bucket cfg)) st1 of
                  (Inl e, st2) \<Rightarrow>
                    (Inl (ReplicationError (''Failed to access target GCS bucket: '' @ str_exn e)), st2)
                | (Inr b, st2) \<Rightarrow> (Inr b, st2\<lparr>target_bucket_attr := Some b\<rparr>))))"

subsection \<open>The existence check\<close>

text \<open>The handler \<open>except GoogleCloudError\<close>: any other exception leaves the method.\<close>

definition check_file_exists_except :: "exn \<Rightarrow> state \<Rightarrow> (exn + bool) \<times> state" where
  "check_file_exists_except e st =
     (case e of
        GoogleCloudError m \<Rightarrow> (Inr False, st)
      | _ \<Rightarrow> (Inl e, st))"

definition check_file_exists_in_gcs ::
  "env \<Rightarrow> Config \<Rightarrow> string \<Rightarrow> state \<Rightarrow> (exn + bool) \<times> state" where
  "check_file_exists_in_gcs E cfg object_name st =
     (case target_bucket E cfg st of
        (Inl e, st1) \<Rightarrow> check_file_exists_except e st1
      | (Inr b, st1) \<Rightarrow>
          (case call (blob_exists E) (BlobExists object_name) st1 of
             (Inl e, st2) \<Rightarrow> check_file_exists_except e st2
           | (Inr r, st2) \<Rightarrow> (Inr r, st2)))"

subsection \<open>Download\<close>

text \<open>
  The loop \<open>while True: chunk = body.read(chunk_size); if not chunk: break;
  stream.write(chunk)\<close>, with the buffer written so far.
\<close>

fun read_chunks :: "int \<Rightarrow> body \<Rightarrow> bytes \<Rightarrow> exn + bytes" where
  "read_chunks amt [] stream = Inr stream"
| "read_chunks amt (r # rest) stream =
     (case r amt of
        Inl e \<Rightarrow> Inl e
      | Inr chunk \<Rightarrow> if chunk = [] then Inr stream else read_chunks amt rest (stream @ chunk))"

text \<open>The \<open>try\<close> block of \<open>_download_from_s3\<close>.\<close>

definition download_from_s3_try ::
  "env \<Rightarrow> Config \<Rightarrow> string \<Rightarrow> string \<Rightarrow> state \<Rightarrow> (exn + bytes) \<times> state" where
  "download_from_s3_try E cfg bucket key st =
     (case s3_client E cfg st of
        (Inl e, st1) \<Rightarrow> (Inl e, st1)
      | (Inr c, st1) \<Rightarrow>
          (case call (head_object E) (HeadObject bucket key) st1 of
             (Inl e, st2) \<Rightarrow> (Inl e, st2)
           | (Inr file_size, st2) \<Rightarrow>
               (case s3_client E cfg st2 of
                  (Inl e, st3) \<Rightarrow> (Inl e, st3)
                | (Inr c2, st3) \<Rightarrow>
                    (case call (get_object E) (GetObject bucket key) st3 of
                       (Inl e, st4) \<Rightarrow> (Inl e, st4)
                     | (Inr s3_body, st4) \<Rightarrow> (read_chunks (chunk_size cfg) s3_body [], st4)))))"

text \<open>The handlers \<open>except ClientError\<close> and \<open>except Exception\<close> of \<open>_download_from_s3\<close>.\<close>

definition download_from_s3_except :: "string \<Rightarrow> string \<Rightarrow> exn \<Rightarrow> exn" where
  "download_from_s3_except bucket key e =
     (case e of
        ClientError error_code m \<Rightarrow>
          (if error_code = ''NoSuchKey''
           then S3DownloadError (''File not found: s3://'' @ bucket @ ''/'' @ key)
           else if error_code = ''NoSuchBucket''
           then S3DownloadError (''Bucket not found: '' @ bucket)
           else S3DownloadError (''S3 download failed: '' @ str_exn e))
      | _ \<Rightarrow> S3DownloadError (''Unexpected error during S3 download: '' @ str_exn e))"

text \<open>The undecorated method.\<close>

definition download_from_s3_func ::
  "env \<Rightarrow> Config \<Rightarrow> string \<Rightarrow> string \<Rightarrow> state \<Rightarrow> (exn + bytes) \<times> state" where
  "download_from_s3_func E cfg bucket key st =
     (case download_from_s3_try E cfg bucket key st of
        (Inl e, st1) \<Rightarrow> (Inl (download_from_s3_except bucket key e), st1)
      | (Inr stream, st1) \<Rightarrow> (Inr stream, st1))"

text \<open>\<open>@retry_with_backoff(max_retries=3, delay=1.0, backoff=2.0)\<close>\<close>

definition download_from_s3 ::
  "env \<Rightarrow> Config \<Rightarrow> string \<Rightarrow> string \<Rightarrow> state \<Rightarrow> (exn + bytes) \<times> state" where
  "download_from_s3 E cfg bucket key =
     retry_with_backoff 3 1 2 (download_from_s3_func E cfg bucket key)"

subsection \<open>Upload\<close>

text \<open>\<open>if metadata: blob.metadata = metadata\<close>: \<open>None\<close> and the empty dictionary are falsy.\<close>

definition blob_metadata :: "(string \<times> string) list option \<Rightarrow> (string \<times> string) list option" where
  "blob_metadata metadata =
     (case metadata of
        None \<Rightarrow> None
      | Some m \<Rightarrow> if m = [] then None else Some m)"

definition upload_to_gcs_try ::
  "env \<Rightarrow> Config \<Rightarrow> bytes \<Rightarrow> string \<Rightarrow> (string \<times> string) list option \<Rightarrow> state
    \<Rightarrow> (exn + unit) \<times> state" where
  "upload_to_gcs_try E cfg stream object_name metadata st =
     (case target_bucket E cfg st of
        (Inl e, st1) \<Rightarrow> (Inl e, st1)
      | (Inr b, st1) \<Rightarrow>
          call (upload_from_file E) (UploadFromFile stream object_name (blob_metadata metadata)) st1)"

definition upload_to_gcs_except :: "exn \<Rightarrow> exn" where
  "upload_to_gcs_except e =
     (case e of
        GoogleCloudError m \<Rightarrow> GCSUploadError (''GCS upload failed: '' @ str_exn e)
      | _ \<Rightarrow> GCSUploadError (''Unexpected error during GCS upload: '' @ str_exn e))"

definition upload_to_gcs_func ::
  "env \<Rightarrow> Config \<Rightarrow> bytes \<Rightarrow> string \<Rightarrow> (string \<times> string) list option \<Rightarrow> state
    \<Rightarrow> (exn + unit) \<times> state" where
  "upload_to_gcs_func E cfg stream object_name metadata st =
     (case upload_to_gcs_try E cfg stream object_name metadata st of
        (Inl e, st1) \<Rightarrow> (Inl (upload_to_gcs_except e), st1)
      | (Inr u, st1) \<Rightarrow> (Inr u, st1))"

definition upload_to_gcs ::
  "env \<Rightarrow> Config \<Rightarrow> bytes \<Rightarrow> string \<Rightarrow> (string \<times> string) list option \<Rightarrow> state
    \<Rightarrow> (exn + unit) \<times> state" where
  "upload_to_gcs E cfg stream object_name metadata =
     retry_with_backoff 3 1 2 (upload_to_gcs_func E cfg stream object_name metadata)"

subsection \<open>replicate\<close>

text \<open>\<open>str(int(t))\<close>: truncation towards zero, printed in decimal.\<close>

definition py_int :: "real \<Rightarrow> int" where
  "py_int t = (if t < 0 then \<lceil>t\<rceil> else \<lfloor>t\<rfloor>)"

fun str_nat :: "nat \<Rightarrow> string" where
  "str_nat n =
     (if n < 10 then [''0123456789'' ! n]
      else str_nat (n div 10) @ [''0123456789'' ! (n mod 10)])"

declare str_nat.simps [simp del]

definition str_int :: "int \<Rightarrow> string" where
  "str_int i = (if i < 0 then ''-'' @ str_nat (nat (- i)) else str_nat (nat i))"

text \<open>The dictionary \<open>metadata\<close> built by \<open>replicate\<close> from the clock reading \<open>stamp\<close>.\<close>

definition replication_metadata :: "string \<Rightarrow> string \<Rightarrow> real \<Rightarrow> (string \<times> string) list" where
  "replication_metadata s3_bucket s3_key stamp =
     [(''source_bucket'', s3_bucket),
      (''source_key'', s3_key),
      (''replication_timestamp'', str_int (py_int stamp)),
      (''replicator_version'', ''1.0.0'')]"

text \<open>The \<open>try\<close> block of \<open>replicate\<close>.\<close>

definition replicate_try ::
  "env \<Rightarrow> Config \<Rightarrow> string \<Rightarrow> string \<Rightarrow> real \<Rightarrow> string \<Rightarrow> state \<Rightarrow> (exn + dict) \<times> state" where
  "replicate_try E cfg s3_bucket s3_key start_time object_name st =
     (case check_file_exists_in_gcs E cfg object_name st of
        (Inl e, st1) \<Rightarrow> (Inl e, st1)
      | (Inr found, st1) \<Rightarrow>
          if found then
            (case time_time E st1 of
               (now, st2) \<Rightarrow>
                 (Inr [(''status'', PyStr ''skipped''),
                       (''reason'', PyStr ''file_already_exists''),
                       (''source'', PyStr (''s3://'' @ s3_bucket @ ''/'' @ s3_key)),
                       (''destination'', PyStr (''gs://'' @ target_gcs_bucket cfg @ ''/'' @ object_name)),
                       (''duration_seconds'', PyFloat (now - start_time))], st2))
          else
            (case download_from_s3 E cfg s3_bucket s3_key st1 of
               (Inl e, st2) \<Rightarrow> (Inl e, st2)
             | (Inr stream, st2) \<Rightarrow>
                 (case time_time E st2 of
                    (stamp, st3) \<Rightarrow>
                      (case upload_to_gcs E cfg stream object_name
                              (Some (replication_metadata s3_bucket s3_key stamp)) st3 of
                         (Inl e, st4) \<Rightarrow> (Inl e, st4)
                       | (Inr u, st4) \<Rightarrow>
                           (case time_time E st4 of
                              (now, st5) \<Rightarrow>
                                (Inr [(''status'', PyStr ''success''),
                                      (''source'', PyStr (''s3://'' @ s3_bucket @ ''/'' @ s3_key)),
                                      (''destination'',
                                         PyStr (''gs://'' @ target_gcs_bucket cfg @ ''/'' @ object_name)),
                                      (''duration_seconds'', PyFloat (now - start_time)),
                                      (''size_bytes'', PyInt (int (length stream)))], st5))))))"

text \<open>
  The handlers \<open>except (S3DownloadError, GCSUploadError)\<close> and \<open>except Exception\<close> of
  \<open>replicate\<close>.
\<close>

definition replicate_error :: "exn \<Rightarrow> string" where
  "replicate_error e =
     (case e of
        S3DownloadError m \<Rightarrow> str_exn e
      | GCSUploadError m \<Rightarrow> str_exn e
      | _ \<Rightarrow> ''Unexpected error: '' @ str_exn e)"

definition replicate_except ::
  "env \<Rightarrow> Config \<Rightarrow> string \<Rightarrow> string \<Rightarrow> real \<Rightarrow> string \<Rightarrow> exn \<Rightarrow> state \<Rightarrow> (exn + dict) \<times> state" where
  "replicate_except E cfg s3_bucket s3_key start_time object_name e st =
     (case time_time E st of
        (now, st1) \<Rightarrow>
          (Inr [(''status'', PyStr ''failed''),
                (''error'', PyStr (replicate_error e)),
                (''source'', PyStr (''s3://'' @ s3_bucket @ ''/'' @ s3_key)),
                (''destination'', PyStr (''gs://'' @ target_gcs_bucket cfg @ ''/'' @ object_name)),
                (''duration_seconds'', PyFloat (now - start_time))], st1))"

text \<open>\<open>CrossCloudReplicator.replicate\<close>\<close>

definition replicate_file ::
  "env \<Rightarrow> Config \<Rightarrow> string \<Rightarrow> string \<Rightarrow> state \<Rightarrow> (exn + dict) \<times> state" where
  "replicate_file E cfg s3_bucket s3_key st =
     (case time_time E st of
        (start_time, st1) \<Rightarrow>
          (case replicate_try E cfg s3_bucket s3_key start_time
                  (sanitize_gcs_object_name s3_key) st1 of
             (Inl e, st2) \<Rightarrow>
               replicate_except E cfg s3_bucket s3_key start_time
                 (sanitize_gcs_object_name s3_key) e st2
           | (Inr d, st2) \<Rightarrow> (Inr d, st2)))"

section \<open>Observing a run\<close>

text \<open>The value stored under a key of the returned dictionary.\<close>

definition result_get :: "(exn + dict) \<times> state \<Rightarrow> string \<Rightarrow> pyval option" where
  "result_get r key = (case fst r of Inl e \<Rightarrow> None | Inr out \<Rightarrow> map_of out key)"

text \<open>
  The calls a download makes (it creates the S3 client on first use) and the call an upload
  makes, and the delays slept, as they stand in a history.
\<close>

fun is_fetch_call :: "event \<Rightarrow> bool" where
  "is_fetch_call (Boto3Client a s r) = True"
| "is_fetch_call (HeadObject b k) = True"
| "is_fetch_call (GetObject b k) = True"
| "is_fetch_call ev = False"

fun is_upload :: "event \<Rightarrow> bool" where
  "is_upload (UploadFromFile stream name md) = True"
| "is_upload ev = False"

fun is_head :: "event \<Rightarrow> bool" where
  "is_head (HeadObject b k) = True"
| "is_head ev = False"

fun sleeps :: "event list \<Rightarrow> real list" where
  "sleeps [] = []"
| "sleeps (TimeSleep d # evs) = d # sleeps evs"
| "sleeps (ev # evs) = sleeps evs"

text \<open>
  The chunks that the successive \<open>read(amt)\<close> calls of a body return before the first
  empty chunk, written with the list functions of the library.
\<close>

definition chunks_read :: "int \<Rightarrow> body \<Rightarrow> bytes list" where
  "chunks_read amt s3_body =
     takeWhile (\<lambda>c. c \<noteq> []) (map (\<lambda>r. case r amt of Inl e \<Rightarrow> [] | Inr c \<Rightarrow> c) s3_body)"

text \<open>
  An opaque operation: each invocation is recorded and answered from the history, so its
  outcome may differ from one attempt to the next.
\<close>

definition invoke :: "(event list \<Rightarrow> exn + 'a) \<Rightarrow> state \<Rightarrow> (exn + 'a) \<times> state" where
  "invoke answer st = call answer Invoke st"

text \<open>
  The state in which attempt number \<open>n\<close> (from 0) of an operation starts when every earlier
  attempt has been made and attempt \<open>i\<close> was followed by a sleep of \<open>delay * backoff ^ i\<close>:
  the schedule of the backoff executor, written from its contract.
\<close>

fun attempt_state ::
  "(state \<Rightarrow> (exn + 'a) \<times> state) \<Rightarrow> real \<Rightarrow> real \<Rightarrow> nat \<Rightarrow> state \<Rightarrow> state" where
  "attempt_state func delay backoff 0 st = st"
| "attempt_state func delay backoff (Suc n) st =
     snd (time_sleep (delay * backoff ^ n) (snd (func (attempt_state func delay backoff n st))))"

section \<open>Example configurations and backends\<close>

text \<open>The configuration of the test suite, with the defaults of \<open>Config\<close>.\<close>

definition cfg0 :: Config where
  "cfg0 = \<lparr>aws_access_key_id = ''test_key'', aws_secret_access_key = ''test_secret'',
            aws_region = ''us-east-1'', gcp_credentials_path = None, gcp_project_id = '''',
            target_gcs_bucket = ''test-bucket'', host = ''0.0.0.0'', port = 8080, debug = False,
            max_retries = 3, retry_delay = 1, retry_backoff = 2, chunk_size = 8192\<rparr>"

text \<open>A configuration that asks for no retry at all.\<close>

definition cfg_no_retry :: Config where
  "cfg_no_retry = cfg0\<lparr>max_retries := 0, retry_delay := 5, retry_backoff := 3\<rparr>"

definition test_data :: bytes where
  "test_data = [116, 101, 115, 116]"

text \<open>
  Backends that always answer: the destination object is absent, the source object holds
  \<open>test_data\<close>, and the clock advances by one with every call.
\<close>

definition env_ok :: env where
  "env_ok = \<lparr>boto3_client = (\<lambda>h. Inr 1), storage_Client = (\<lambda>h. Inr 2),
              client_bucket = (\<lambda>h. Inr 3), blob_exists = (\<lambda>h. Inr False),
              head_object = (\<lambda>h. Inr 4),
              get_object = (\<lambda>h. Inr [\<lambda>amt. Inr test_data, \<lambda>amt. Inr []]),
              upload_from_file = (\<lambda>h. Inr ()), clock = (\<lambda>h. real (length h))\<rparr>"

text \<open>The destination object is present.\<close>

definition env_present :: env where
  "env_present = env_ok\<lparr>blob_exists := (\<lambda>h. Inr True)\<rparr>"

text \<open>The source object is missing: every \<open>head_object\<close> fails.\<close>

definition env_fetch_fails :: env where
  "env_fetch_fails = env_ok\<lparr>head_object := (\<lambda>h. Inl (ClientError ''NoSuchKey'' ''Not Found''))\<rparr>"

text \<open>The first three \<open>head_object\<close> calls time out, the fourth answers.\<close>

definition env_flaky :: env where
  "env_flaky = env_ok\<lparr>head_object :=
     (\<lambda>h. if length (filter is_head h) \<le> 3 then Inl (OtherException ''timed out'') else Inr 4)\<rparr>"

text \<open>The existence query fails, with the destination store's own error class.\<close>

definition env_exists_gce :: env where
  "env_exists_gce = env_ok\<lparr>blob_exists := (\<lambda>h. Inl (GoogleCloudError ''503 backend error''))\<rparr>"

text \<open>The existence query fails with an exception that is not a \<open>GoogleCloudError\<close>.\<close>

definition env_exists_other :: env where
  "env_exists_other = env_ok\<lparr>blob_exists := (\<lambda>h. Inl (OtherException ''connection reset''))\<rparr>"

text \<open>The destination client cannot be created, so there is no bucket handle.\<close>

definition env_no_client :: env where
  "env_no_client =
     env_ok\<lparr>storage_Client := (\<lambda>h. Inl (OtherException ''credentials were not found''))\<rparr>"

text \<open>
  A body that behaves like a file over its content: the read number \<open>k\<close> with \<open>amt \<ge> 0\<close>
  returns the next \<open>amt\<close> bytes, and a read with a negative \<open>amt\<close> returns all of it.
\<close>

definition file_like_body :: "bytes \<Rightarrow> body" where
  "file_like_body content =
     map (\<lambda>k amt. Inr (if amt < 0 then (if k = 0 then content else [])
                       else take (nat amt) (drop (k * nat amt) content)))
       [0..<Suc (length content)]"

text \<open>The source object is such a body over \<open>test_data\<close>.\<close>

definition env_file_body :: env where
  "env_file_body = env_ok\<lparr>get_object := (\<lambda>h. Inr (file_like_body test_data))\<rparr>"

text \<open>A configuration with \<open>CHUNK_SIZE=0\<close>.\<close>

definition cfg_chunk0 :: Config where
  "cfg_chunk0 = cfg0\<lparr>chunk_size := 0\<rparr>"

text \<open>The wall clock is set back by one with every call.\<close>

definition env_clock_back :: env where
  "env_clock_back = env_ok\<lparr>clock := (\<lambda>h. - real (length h))\<rparr>"

section \<open>Auxiliary lemmas\<close>

subsection \<open>Every step extends the history\<close>

lemma call_simps [simp]:
  "fst (call f ev st) = f (history st @ [ev])"
  "history (snd (call f ev st)) = history st @ [ev]"
  "s3_client_attr (snd (call f ev st)) = s3_client_attr st"
  "gcs_client_attr (snd (call f ev st)) = gcs_client_attr st"
  "target_bucket_attr (snd (call f ev st)) = target_bucket_attr st"
  by (simp_all add: call_def)

lemma s3_client_prefix: "prefix (history st) (history (snd (s3_client E cfg st)))"
  by (auto simp: s3_client_def call_def split: option.splits sum.splits exn.splits)

lemma gcs_client_prefix: "prefix (history st) (history (snd (gcs_client E cfg st)))"
  by (auto simp: gcs_client_def call_def split: option.splits sum.splits)

lemma target_bucket_prefix: "prefix (history st) (history (snd (target_bucket E cfg st)))"
  using gcs_client_prefix [of st E cfg]
  by (auto simp: target_bucket_def call_def split: option.splits sum.splits prod.splits
      intro: prefix_order.trans)


lemma time_time_simps [simp]:
  "fst (time_time E st) = clock E (history st @ [TimeTime])"
  "history (snd (time_time E st)) = history st @ [TimeTime]"
  "s3_client_attr (snd (time_time E st)) = s3_client_attr st"
  "gcs_client_attr (snd (time_time E st)) = gcs_client_attr st"
  "target_bucket_attr (snd (time_time E st)) = target_bucket_attr st"
  by (simp_all add: time_time_def)

lemma check_file_exists_prefix:
  "prefix (history st) (history (snd (check_file_exists_in_gcs E cfg name st)))"
proof -
  have a: "prefix (history st) (history (snd (target_bucket E cfg st)))"
    by (rule target_bucket_prefix)
  obtain r st1 where t: "target_bucket E cfg st = (r, st1)"
    by (cases "target_bucket E cfg st")
  with a have p: "prefix (history st) (history st1)" by simp
  have "prefix (history st1) (history (snd (check_file_exists_in_gcs E cfg name st)))"
    using t
    by (auto simp: check_file_exists_in_gcs_def check_file_exists_except_def call_def
        split: sum.splits exn.splits)
  with p show ?thesis by (rule prefix_order.trans)
qed

lemma download_try_prefix:
  "prefix (history st) (history (snd (download_from_s3_try E cfg bucket key st)))"
proof -
  obtain r1 st1 where a: "s3_client E cfg st = (r1, st1)"
    by (cases "s3_client E cfg st")
  have p1: "prefix (history st) (history st1)"
    using s3_client_prefix [of st E cfg] a by simp
  show ?thesis
  proof (cases r1)
    case (Inl e)
    with a p1 show ?thesis by (simp add: download_from_s3_try_def)
  next
    case (Inr c)
    obtain r2 st2 where b: "call (head_object E) (HeadObject bucket key) st1 = (r2, st2)"
      by (cases "call (head_object E) (HeadObject bucket key) st1")
    then have p2: "prefix (history st1) (history st2)"
      by (auto simp: call_def)
    show ?thesis
    proof (cases r2)
      case (Inl e)
      with a b Inr p1 p2 show ?thesis
        by (auto simp: download_from_s3_try_def intro: prefix_order.trans)
    next
      case r2: (Inr sz)
      obtain r3 st3 where c: "s3_client E cfg st2 = (r3, st3)"
        by (cases "s3_client E cfg st2")
      have p3: "prefix (history st2) (history st3)"
        using s3_client_prefix [of st2 E cfg] c by simp
      have p13: "prefix (history st) (history st3)"
        using p1 p2 p3 by (blast intro: prefix_order.trans)
      show ?thesis
        using a b c Inr r2 p13
        by (auto simp: download_from_s3_try_def call_def split: sum.splits
            intro: prefix_order.trans)
    qed
  qed
qed

lemma download_func_prefix:
  "prefix (history st) (history (snd (download_from_s3_func E cfg bucket key st)))"
  using download_try_prefix [of st E cfg bucket key]
  by (auto simp: download_from_s3_func_def split: prod.splits sum.splits)

lemma upload_try_prefix:
  "prefix (history st) (history (snd (upload_to_gcs_try E cfg stream name md st)))"
  using target_bucket_prefix [of st E cfg]
  by (auto simp: upload_to_gcs_try_def call_def split: prod.splits sum.splits
      intro: prefix_order.trans)

lemma upload_func_prefix:
  "prefix (history st) (history (snd (upload_to_gcs_func E cfg stream name md st)))"
  using upload_try_prefix [of st E cfg stream name md]
  by (auto simp: upload_to_gcs_func_def split: prod.splits sum.splits)

lemma retry_loop_prefix:
  assumes f: "\<And>s. prefix (history s) (history (snd (func s)))"
  shows "prefix (history st) (history (snd (retry_loop m b func xs c lst st)))"
proof (induction xs arbitrary: c lst st)
  case Nil
  show ?case by simp
next
  case (Cons a xs)
  obtain r st1 where a: "func st = (r, st1)" by (cases "func st")
  have p1: "prefix (history st) (history st1)" using f [of st] a by simp
  show ?case
  proof (cases r)
    case (Inr v)
    with a p1 show ?thesis by simp
  next
    case (Inl e)
    show ?thesis
    proof (cases "a = m \<or> c < 0")
      case True
      with a Inl p1 show ?thesis by (auto simp: time_sleep_def)
    next
      case False
      let ?st2 = "st1\<lparr>history := history st1 @ [TimeSleep c]\<rparr>"
      have "prefix (history ?st2) (history (snd (retry_loop m b func xs (c * b) (Some e) ?st2)))"
        by (rule Cons.IH)
      moreover have "prefix (history st) (history ?st2)"
        using p1 by (simp add: prefix_prefix)
      ultimately have "prefix (history st) (history (snd (retry_loop m b func xs (c * b) (Some e) ?st2)))"
        by (blast intro: prefix_order.trans)
      with a Inl False show ?thesis by (simp add: time_sleep_def)
    qed
  qed
qed

lemma download_prefix:
  "prefix (history st) (history (snd (download_from_s3 E cfg bucket key st)))"
  unfolding download_from_s3_def retry_with_backoff_def
  by (rule retry_loop_prefix) (rule download_func_prefix)

lemma upload_prefix:
  "prefix (history st) (history (snd (upload_to_gcs E cfg stream name md st)))"
  unfolding upload_to_gcs_def retry_with_backoff_def
  by (rule retry_loop_prefix) (rule upload_func_prefix)

subsection \<open>The retry loop\<close>

lemma time_sleep_nonneg:
  "0 \<le> c \<Longrightarrow> time_sleep c st = (Inr (), st\<lparr>history := history st @ [TimeSleep c]\<rparr>)"
  by (simp add: time_sleep_def)

lemma retry_loop_failures:
  assumes d: "0 \<le> d" and b: "0 \<le> b"
  shows "int k \<le> m \<Longrightarrow> (\<forall>i<k. isl (fst (func (attempt_state func d b i st)))) \<Longrightarrow>
     retry_loop m b func [0..m] d lst st =
     retry_loop m b func [int k..m] (d * b ^ k)
        (if k = 0 then lst else Some (projl (fst (func (attempt_state func d b (k - 1) st)))))
        (attempt_state func d b k st)"
proof (induction k)
  case 0
  show ?case by simp
next
  case (Suc k)
  let ?S = "attempt_state func d b k st"
  have IH: "retry_loop m b func [0..m] d lst st =
     retry_loop m b func [int k..m] (d * b ^ k)
        (if k = 0 then lst else Some (projl (fst (func (attempt_state func d b (k - 1) st))))) ?S"
    using Suc by simp
  from Suc.prems have "isl (fst (func ?S))" by simp
  then obtain e st1 where f: "func ?S = (Inl e, st1)"
    by (cases "func ?S") (auto simp: isl_def)
  have up: "[int k..m] = int k # [int (Suc k)..m]"
    using Suc.prems(1) upto_rec1 [of "int k" m] by (simp add: add.commute)
  have ne: "int k \<noteq> m" using Suc.prems(1) by simp
  have nn: "0 \<le> d * b ^ k" using d b by simp
  have "retry_loop m b func [int k..m] (d * b ^ k)
        (if k = 0 then lst else Some (projl (fst (func (attempt_state func d b (k - 1) st))))) ?S
      = retry_loop m b func [int (Suc k)..m] (d * b ^ Suc k) (Some e)
          (attempt_state func d b (Suc k) st)"
    using f ne nn by (simp add: up time_sleep_nonneg mult.assoc mult.commute [of b])
  with IH f show ?case by simp
qed

lemma retry_exhausted_state:
  assumes d: "0 \<le> d" and b: "0 \<le> b" and m: "0 \<le> m"
    and fails: "\<forall>i\<le>nat m. isl (fst (func (attempt_state func d b i st)))"
  shows "retry_with_backoff m d b func st =
     (Inl (projl (fst (func (attempt_state func d b (nat m) st)))),
      snd (func (attempt_state func d b (nat m) st)))"
proof -
  let ?S = "attempt_state func d b (nat m) st"
  have "retry_loop m b func [0..m] d None st =
     retry_loop m b func [int (nat m)..m] (d * b ^ nat m)
        (if nat m = 0 then None else Some (projl (fst (func (attempt_state func d b (nat m - 1) st))))) ?S"
    using m fails by (intro retry_loop_failures [OF d b]) auto
  moreover have "[int (nat m)..m] = [m]" using m by simp
  moreover from fails have "isl (fst (func ?S))" by simp
  then obtain e st1 where f: "func ?S = (Inl e, st1)"
    by (cases "func ?S") (auto simp: isl_def)
  ultimately show ?thesis
    by (simp add: retry_with_backoff_def raise_last_def)
qed

lemma retry_succeeds_at:
  assumes d: "0 \<le> d" and b: "0 \<le> b" and k: "int k \<le> m"
    and fails: "\<forall>i<k. isl (fst (func (attempt_state func d b i st)))"
    and ok: "fst (func (attempt_state func d b k st)) = Inr v"
  shows "retry_with_backoff m d b func st = (Inr v, snd (func (attempt_state func d b k st)))"
proof -
  let ?S = "attempt_state func d b k st"
  have "retry_loop m b func [0..m] d None st =
     retry_loop m b func [int k..m] (d * b ^ k)
        (if k = 0 then None else Some (projl (fst (func (attempt_state func d b (k - 1) st))))) ?S"
    using k fails by (intro retry_loop_failures [OF d b]) auto
  moreover have "[int k..m] = int k # [int k + 1..m]"
    using k upto_rec1 [of "int k" m] by simp
  moreover obtain st1 where "func ?S = (Inr v, st1)"
    using ok by (cases "func ?S") auto
  ultimately show ?thesis
    by (simp add: retry_with_backoff_def)
qed

lemma attempt_state_invoke_history:
  assumes d: "0 \<le> d" and b: "0 \<le> b"
  shows "history (attempt_state (invoke answer) d b n st) =
     history st @ concat (map (\<lambda>i. [Invoke, TimeSleep (d * b ^ i)]) [0..<n])"
proof (induction n)
  case 0
  show ?case by simp
next
  case (Suc n)
  have "0 \<le> d * b ^ n" using d b by simp
  with Suc show ?case
    by (simp add: time_sleep_nonneg invoke_def call_def)
qed

lemma sleeps_append: "sleeps (xs @ ys) = sleeps xs @ sleeps ys"
  by (induction xs rule: sleeps.induct) auto

lemma sleeps_schedule:
  "sleeps (concat (map (\<lambda>i. [Invoke, TimeSleep (f i)]) xs)) = map f xs"
  by (induction xs) auto

lemma filter_invoke_schedule:
  "length (filter (\<lambda>ev. ev = Invoke) (concat (map (\<lambda>i. [Invoke, TimeSleep (f i)]) xs))) = length xs"
  by (induction xs) auto

lemma delays_sorted:
  assumes "0 < (d::real)" and "1 \<le> b"
  shows "sorted (map (\<lambda>i. d * b ^ i) [0..<n])"
proof -
  have "\<And>i j. i \<le> j \<Longrightarrow> d * b ^ i \<le> d * b ^ j"
    using assms by (simp add: power_increasing)
  then show ?thesis
    by (simp add: sorted_map sorted_wrt_iff_nth_less)
qed

subsection \<open>The stream is the concatenation of the chunks read\<close>

lemma read_chunks_all:
  "\<forall>c\<in>set chunks. c \<noteq> [] \<Longrightarrow>
     read_chunks amt (map (\<lambda>c a. Inr c) chunks) stream = Inr (stream @ concat chunks)"
  by (induction chunks arbitrary: stream) simp_all

lemma read_chunks_stops_at_empty_chunk:
  "read_chunks amt ((\<lambda>a. Inr []) # rest) stream = Inr stream"
  by simp

lemma read_chunks_concat:
  "read_chunks amt s3_body stream = Inr s \<Longrightarrow> s = stream @ concat (chunks_read amt s3_body)"
proof (induction s3_body arbitrary: stream)
  case Nil
  then show ?case by (simp add: chunks_read_def)
next
  case (Cons r rest)
  show ?case
  proof (cases "r amt")
    case (Inl e)
    with Cons.prems show ?thesis by simp
  next
    case (Inr chunk)
    show ?thesis
    proof (cases "chunk = []")
      case True
      with Cons.prems Inr show ?thesis by (simp add: chunks_read_def)
    next
      case False
      with Cons.prems Inr have "read_chunks amt rest (stream @ chunk) = Inr s" by simp
      then have "s = (stream @ chunk) @ concat (chunks_read amt rest)"
        by (rule Cons.IH)
      with Inr False show ?thesis by (simp add: chunks_read_def)
    qed
  qed
qed

subsection \<open>What the existence check does to the state\<close>

lemma gcs_client_calls:
  "filter is_fetch_call (history (snd (gcs_client E cfg st))) = filter is_fetch_call (history st)"
  "filter is_upload (history (snd (gcs_client E cfg st))) = filter is_upload (history st)"
  by (auto simp: gcs_client_def call_def split: option.splits sum.splits)

lemma target_bucket_calls:
  "filter is_fetch_call (history (snd (target_bucket E cfg st))) = filter is_fetch_call (history st)"
  "filter is_upload (history (snd (target_bucket E cfg st))) = filter is_upload (history st)"
  using gcs_client_calls [of E cfg st]
  by (auto simp: target_bucket_def call_def split: option.splits sum.splits prod.splits)

lemma target_bucket_cached:
  "target_bucket E cfg st = (Inr h, st1) \<Longrightarrow> target_bucket_attr st1 = Some h"
  by (auto simp: target_bucket_def call_def split: option.splits sum.splits prod.splits)

lemma target_bucket_when_cached:
  "target_bucket_attr st = Some h \<Longrightarrow> target_bucket E cfg st = (Inr h, st)"
  by (simp add: target_bucket_def)

lemma check_file_exists_calls:
  "filter is_fetch_call (history (snd (check_file_exists_in_gcs E cfg name st))) =
     filter is_fetch_call (history st)"
  "filter is_upload (history (snd (check_file_exists_in_gcs E cfg name st))) =
     filter is_upload (history st)"
  using target_bucket_calls [of E cfg st]
  by (auto simp: check_file_exists_in_gcs_def check_file_exists_except_def call_def
      split: sum.splits prod.splits exn.splits)

lemma check_file_exists_returns:
  assumes "check_file_exists_in_gcs E cfg name st = (Inr r, st2)"
  shows "\<exists>h st1. target_bucket E cfg st = (Inr h, st1)
           \<and> st2 = st1\<lparr>history := history st1 @ [BlobExists name]\<rparr>
           \<and> target_bucket_attr st2 = Some h"
proof -
  obtain x st1 where t: "target_bucket E cfg st = (x, st1)"
    by (cases "target_bucket E cfg st")
  show ?thesis
  proof (cases x)
    case (Inl e)
    with t assms show ?thesis
      by (cases e) (auto simp: check_file_exists_in_gcs_def check_file_exists_except_def
          target_bucket_def split: option.splits sum.splits prod.splits)
  next
    case (Inr h)
    with t have c: "target_bucket_attr st1 = Some h" by (simp add: target_bucket_cached)
    from t Inr assms c show ?thesis
      by (auto simp: check_file_exists_in_gcs_def check_file_exists_except_def call_def
          split: sum.splits exn.splits)
  qed
qed

subsection \<open>What the download does to the state\<close>

lemma s3_client_keeps:
  "target_bucket_attr (snd (s3_client E cfg st)) = target_bucket_attr st"
  "filter is_upload (history (snd (s3_client E cfg st))) = filter is_upload (history st)"
  by (auto simp: s3_client_def call_def split: option.splits sum.splits exn.splits)

lemma download_try_keeps:
  "target_bucket_attr (snd (download_from_s3_try E cfg bucket key st)) = target_bucket_attr st"
  "filter is_upload (history (snd (download_from_s3_try E cfg bucket key st))) =
     filter is_upload (history st)"
proof -
  obtain r1 st1 where a: "s3_client E cfg st = (r1, st1)"
    by (cases "s3_client E cfg st")
  have k1: "target_bucket_attr st1 = target_bucket_attr st"
    "filter is_upload (history st1) = filter is_upload (history st)"
    using s3_client_keeps [of E cfg st] a by simp_all
  let ?st2 = "st1\<lparr>history := history st1 @ [HeadObject bucket key]\<rparr>"
  obtain r3 st3 where c: "s3_client E cfg ?st2 = (r3, st3)"
    by (cases "s3_client E cfg ?st2")
  have k3: "target_bucket_attr st3 = target_bucket_attr st"
    "filter is_upload (history st3) = filter is_upload (history st)"
    using s3_client_keeps [of E cfg ?st2] c k1 by simp_all
  show "target_bucket_attr (snd (download_from_s3_try E cfg bucket key st)) = target_bucket_attr st"
    using a c k1 k3
    by (auto simp: download_from_s3_try_def call_def split: sum.splits)
  show "filter is_upload (history (snd (download_from_s3_try E cfg bucket key st))) =
     filter is_upload (history st)"
    using a c k1 k3
    by (auto simp: download_from_s3_try_def call_def split: sum.splits)
qed

lemma download_func_keeps:
  "target_bucket_attr (snd (download_from_s3_func E cfg bucket key st)) = target_bucket_attr st"
  "filter is_upload (history (snd (download_from_s3_func E cfg bucket key st))) =
     filter is_upload (history st)"
  using download_try_keeps [of E cfg bucket key st]
  by (auto simp: download_from_s3_func_def split: prod.splits sum.splits)

lemma time_sleep_keeps:
  "target_bucket_attr (snd (time_sleep d st)) = target_bucket_attr st"
  "filter is_upload (history (snd (time_sleep d st))) = filter is_upload (history st)"
  by (simp_all add: time_sleep_def)

lemma retry_loop_keeps:
  assumes f: "\<And>s. target_bucket_attr (snd (func s)) = target_bucket_attr s
                 \<and> filter is_upload (history (snd (func s))) = filter is_upload (history s)"
  shows "target_bucket_attr (snd (retry_loop m b func xs c lst st)) = target_bucket_attr st
       \<and> filter is_upload (history (snd (retry_loop m b func xs c lst st))) =
           filter is_upload (history st)"
proof (induction xs arbitrary: c lst st)
  case Nil
  show ?case by simp
next
  case (Cons a xs)
  obtain r st1 where a: "func st = (r, st1)" by (cases "func st")
  have k1: "target_bucket_attr st1 = target_bucket_attr st"
    "filter is_upload (history st1) = filter is_upload (history st)"
    using f [of st] a by simp_all
  show ?case
  proof (cases r)
    case (Inr v)
    with a k1 show ?thesis by simp
  next
    case (Inl e)
    show ?thesis
    proof (cases "a = m \<or> c < 0")
      case True
      with a Inl k1 show ?thesis by (auto simp: time_sleep_def)
    next
      case False
      let ?st2 = "st1\<lparr>history := history st1 @ [TimeSleep c]\<rparr>"
      have "target_bucket_attr (snd (retry_loop m b func xs (c * b) (Some e) ?st2)) =
              target_bucket_attr ?st2
          \<and> filter is_upload (history (snd (retry_loop m b func xs (c * b) (Some e) ?st2))) =
              filter is_upload (history ?st2)"
        by (rule Cons.IH)
      with a Inl False k1 show ?thesis by (simp add: time_sleep_def)
    qed
  qed
qed

lemma download_keeps:
  "target_bucket_attr (snd (download_from_s3 E cfg bucket key st)) = target_bucket_attr st
   \<and> filter is_upload (history (snd (download_from_s3 E cfg bucket key st))) =
       filter is_upload (history st)"
  unfolding download_from_s3_def retry_with_backoff_def
  by (rule retry_loop_keeps) (simp add: download_func_keeps)

subsection \<open>The upload once the bucket handle is there\<close>

lemma upload_func_when_cached:
  assumes "target_bucket_attr st = Some h"
  shows "upload_to_gcs_func E cfg stream name md st =
     ((case upload_from_file E (history st @ [UploadFromFile stream name (blob_metadata md)]) of
         Inl e \<Rightarrow> Inl (upload_to_gcs_except e)
       | Inr u \<Rightarrow> Inr u),
      st\<lparr>history := history st @ [UploadFromFile stream name (blob_metadata md)]\<rparr>)"
  using assms
  by (simp add: upload_to_gcs_func_def upload_to_gcs_try_def target_bucket_when_cached call_def
      split: sum.splits)

lemma upload_first_attempt:
  assumes "fst (upload_to_gcs_func E cfg stream name md st) = Inr u"
  shows "upload_to_gcs E cfg stream name md st = upload_to_gcs_func E cfg stream name md st"
  using assms
  by (cases "upload_to_gcs_func E cfg stream name md st")
     (simp add: upload_to_gcs_def retry_with_backoff_def upto.simps)

subsection \<open>Unfolding a concrete run\<close>

lemmas run_defs = replicate_file_def replicate_try_def replicate_except_def replicate_error_def
   check_file_exists_in_gcs_def check_file_exists_except_def
   target_bucket_def gcs_client_def s3_client_def call_def time_time_def time_sleep_def init_state_def
   download_from_s3_def download_from_s3_func_def download_from_s3_try_def download_from_s3_except_def
   retry_with_backoff_def
   upload_to_gcs_def upload_to_gcs_func_def upload_to_gcs_try_def upload_to_gcs_except_def
   sanitize_gcs_object_name_def
   upto.simps blob_metadata_def replication_metadata_def py_int_def str_int_def str_nat.simps
   raise_last_def

lemma all_less_3: "(\<forall>i<(3::nat). P i) \<longleftrightarrow> P 0 \<and> P (Suc 0) \<and> P (Suc (Suc 0))"
proof -
  have "\<And>i::nat. i < 3 \<longleftrightarrow> i = 0 \<or> i = Suc 0 \<or> i = Suc (Suc 0)"
    by arith
  then show ?thesis by auto
qed

lemma env_ok_clock_mono: "\<forall>h h'. prefix h h' \<longrightarrow> clock env_ok h \<le> clock env_ok h'"
  by (auto simp: env_ok_def prefix_def)

subsection \<open>Only the existence check consults the existence oracle\<close>

lemma time_time_blob_exists: "time_time (E\<lparr>blob_exists := f\<rparr>) st = time_time E st"
  by (simp add: time_time_def call_def)

lemma gcs_client_blob_exists: "gcs_client (E\<lparr>blob_exists := f\<rparr>) cfg st = gcs_client E cfg st"
  by (simp add: gcs_client_def call_def cong: option.case_cong sum.case_cong prod.case_cong exn.case_cong)

lemma target_bucket_blob_exists:
  "target_bucket (E\<lparr>blob_exists := f\<rparr>) cfg st = target_bucket E cfg st"
  by (simp add: target_bucket_def gcs_client_blob_exists call_def cong: option.case_cong sum.case_cong prod.case_cong exn.case_cong)

lemma s3_client_blob_exists: "s3_client (E\<lparr>blob_exists := f\<rparr>) cfg st = s3_client E cfg st"
  by (simp add: s3_client_def call_def cong: option.case_cong sum.case_cong prod.case_cong exn.case_cong)

lemma download_func_blob_exists:
  "download_from_s3_func (E\<lparr>blob_exists := f\<rparr>) cfg bucket key =
     download_from_s3_func E cfg bucket key"
  by (rule ext)
     (simp add: download_from_s3_func_def download_from_s3_try_def s3_client_blob_exists call_def
       cong: option.case_cong sum.case_cong prod.case_cong exn.case_cong)

lemma download_blob_exists:
  "download_from_s3 (E\<lparr>blob_exists := f\<rparr>) cfg bucket key = download_from_s3 E cfg bucket key"
  by (simp add: download_from_s3_def download_func_blob_exists)

lemma upload_func_blob_exists:
  "upload_to_gcs_func (E\<lparr>blob_exists := f\<rparr>) cfg stream name md =
     upload_to_gcs_func E cfg stream name md"
  by (rule ext)
     (simp add: upload_to_gcs_func_def upload_to_gcs_try_def target_bucket_blob_exists call_def
       cong: option.case_cong sum.case_cong prod.case_cong exn.case_cong)

lemma upload_blob_exists:
  "upload_to_gcs (E\<lparr>blob_exists := f\<rparr>) cfg stream name md = upload_to_gcs E cfg stream name md"
  by (simp add: upload_to_gcs_def upload_func_blob_exists)

subsection \<open>The first attempt is always made\<close>

lemma retry_first_attempt_prefix:
  assumes f: "\<And>s. prefix (history s) (history (snd (func s)))"
  shows "prefix (history (snd (func st)))
           (history (snd (retry_loop m b func (a # xs) c lst st)))"
proof -
  obtain r st1 where a: "func st = (r, st1)" by (cases "func st")
  show ?thesis
  proof (cases r)
    case (Inr v)
    with a show ?thesis by simp
  next
    case (Inl e)
    show ?thesis
    proof (cases "a = m \<or> c < 0")
      case True
      with a Inl show ?thesis by (auto simp: time_sleep_def)
    next
      case False
      let ?st2 = "st1\<lparr>history := history st1 @ [TimeSleep c]\<rparr>"
      have "prefix (history ?st2) (history (snd (retry_loop m b func xs (c * b) (Some e) ?st2)))"
        by (rule retry_loop_prefix [OF f])
      moreover have "prefix (history st1) (history ?st2)"
        by simp
      ultimately have "prefix (history st1)
          (history (snd (retry_loop m b func xs (c * b) (Some e) ?st2)))"
        by (rule prefix_order.trans [rotated])
      with a Inl False show ?thesis by (simp add: time_sleep_def)
    qed
  qed
qed

lemma upto_0_3: "[0..3] = 0 # [1..3]"
  by (simp add: upto.simps)

lemma download_first_attempt_prefix:
  "prefix (history (snd (download_from_s3_func E cfg bucket key st)))
     (history (snd (download_from_s3 E cfg bucket key st)))"
  unfolding download_from_s3_def retry_with_backoff_def upto_0_3
  by (rule retry_first_attempt_prefix) (rule download_func_prefix)

lemma upload_first_attempt_prefix:
  "prefix (history (snd (upload_to_gcs_func E cfg stream name md st)))
     (history (snd (upload_to_gcs E cfg stream name md st)))"
  unfolding upload_to_gcs_def retry_with_backoff_def upto_0_3
  by (rule retry_first_attempt_prefix) (rule upload_func_prefix)

lemma s3_client_first_call:
  "history (snd (s3_client E cfg st)) =
     (case s3_client_attr st of
        Some c \<Rightarrow> history st
      | None \<Rightarrow> history st @
          [Boto3Client (aws_access_key_id cfg) (aws_secret_access_key cfg) (aws_region cfg)])"
  by (auto simp: s3_client_def call_def split: option.splits sum.splits exn.splits)

lemma download_try_first_call:
  "\<exists>ev evs. history (snd (download_from_s3_try E cfg bucket key st)) = history st @ ev # evs
     \<and> ev \<in> {Boto3Client (aws_access_key_id cfg) (aws_secret_access_key cfg) (aws_region cfg),
              HeadObject bucket key}"
proof -
  let ?boto = "Boto3Client (aws_access_key_id cfg) (aws_secret_access_key cfg) (aws_region cfg)"
  obtain r1 st1 where a: "s3_client E cfg st = (r1, st1)"
    by (cases "s3_client E cfg st")
  have h1: "history st1 = (case s3_client_attr st of Some c \<Rightarrow> history st
                           | None \<Rightarrow> history st @ [?boto])"
    using s3_client_first_call [of E cfg st] a by simp
  show ?thesis
  proof (cases r1)
    case (Inl e)
    with a have "s3_client_attr st = None"
      by (cases "s3_client_attr st") (auto simp: s3_client_def)
    with h1 a Inl show ?thesis
      by (simp add: download_from_s3_try_def)
  next
    case (Inr c)
    let ?st2 = "st1\<lparr>history := history st1 @ [HeadObject bucket key]\<rparr>"
    have p: "prefix (history ?st2) (history (snd (download_from_s3_try E cfg bucket key st)))"
    proof -
      obtain r3 st3 where c3: "s3_client E cfg ?st2 = (r3, st3)"
        by (cases "s3_client E cfg ?st2")
      have "prefix (history ?st2) (history st3)"
        using s3_client_prefix [of ?st2 E cfg] c3 by simp
      then show ?thesis
        using a Inr c3
        by (auto simp: download_from_s3_try_def call_def prefix_prefix split: sum.splits)
    qed
    then obtain zs where z: "history (snd (download_from_s3_try E cfg bucket key st))
        = history ?st2 @ zs"
      by (auto simp: prefix_def)
    show ?thesis
    proof (cases "s3_client_attr st")
      case None
      with h1 z show ?thesis by simp
    next
      case (Some c0)
      with h1 z show ?thesis by simp
    qed
  qed
qed

lemma download_func_first_call:
  "\<exists>ev evs. history (snd (download_from_s3_func E cfg bucket key st)) = history st @ ev # evs
     \<and> ev \<in> {Boto3Client (aws_access_key_id cfg) (aws_secret_access_key cfg) (aws_region cfg),
              HeadObject bucket key}"
proof -
  have "history (snd (download_from_s3_func E cfg bucket key st))
      = history (snd (download_from_s3_try E cfg bucket key st))"
    by (simp add: download_from_s3_func_def split: prod.splits sum.splits)
  with download_try_first_call [of E cfg bucket key st] show ?thesis by simp
qed

lemma download_first_call:
  "\<exists>ev evs. history (snd (download_from_s3 E cfg bucket key st)) = history st @ ev # evs
     \<and> ev \<in> {Boto3Client (aws_access_key_id cfg) (aws_secret_access_key cfg) (aws_region cfg),
              HeadObject bucket key}"
proof -
  obtain ev evs where a: "history (snd (download_from_s3_func E cfg bucket key st))
      = history st @ ev # evs"
    and b: "ev \<in> {Boto3Client (aws_access_key_id cfg) (aws_secret_access_key cfg) (aws_region cfg),
              HeadObject bucket key}"
    using download_func_first_call [of E cfg bucket key st] by blast
  obtain zs where "history (snd (download_from_s3 E cfg bucket key st))
      = (history st @ ev # evs) @ zs"
    using download_first_attempt_prefix [of E cfg bucket key st] a by (auto simp: prefix_def)
  with b show ?thesis by auto
qed


subsection \<open>The steps of replicate, as they show in the final history\<close>

lemma replicate_file_after_upload:
  assumes ex: "check_file_exists_in_gcs E cfg (sanitize_gcs_object_name s3_key)
                 (snd (time_time E st)) = (Inr False, st2)"
    and dl: "download_from_s3 E cfg s3_bucket s3_key st2 = (Inr stream, st3)"
  shows "prefix
     (history (snd (upload_to_gcs E cfg stream (sanitize_gcs_object_name s3_key)
        (Some (replication_metadata s3_bucket s3_key (fst (time_time E st3))))
        (snd (time_time E st3)))))
     (history (snd (replicate_file E cfg s3_bucket s3_key st)))"
proof -
  obtain t0 st1 where tt: "time_time E st = (t0, st1)"
    by (cases "time_time E st")
  obtain stamp st4 where tt3: "time_time E st3 = (stamp, st4)"
    by (cases "time_time E st3")
  obtain r st5 where u: "upload_to_gcs E cfg stream (sanitize_gcs_object_name s3_key)
      (Some (replication_metadata s3_bucket s3_key stamp)) st4 = (r, st5)"
    by (cases "upload_to_gcs E cfg stream (sanitize_gcs_object_name s3_key)
      (Some (replication_metadata s3_bucket s3_key stamp)) st4")
  obtain now st6 where tt5: "time_time E st5 = (now, st6)"
    by (cases "time_time E st5")
  have h6: "history st6 = history st5 @ [TimeTime]"
    using tt5 time_time_simps(2) [of E st5] by simp
  have "snd (replicate_file E cfg s3_bucket s3_key st) = st6"
    using tt ex dl tt3 u tt5
    by (cases r) (simp_all add: replicate_file_def replicate_try_def replicate_except_def)
  with h6 have "history (snd (replicate_file E cfg s3_bucket s3_key st)) = history st5 @ [TimeTime]"
    by simp
  with tt3 u show ?thesis by simp
qed

lemma replicate_file_after_download:
  assumes ex: "check_file_exists_in_gcs E cfg (sanitize_gcs_object_name s3_key)
                 (snd (time_time E st)) = (Inr False, st2)"
  shows "prefix (history (snd (download_from_s3 E cfg s3_bucket s3_key st2)))
     (history (snd (replicate_file E cfg s3_bucket s3_key st)))"
proof -
  obtain t0 st1 where tt: "time_time E st = (t0, st1)"
    by (cases "time_time E st")
  obtain r st3 where d: "download_from_s3 E cfg s3_bucket s3_key st2 = (r, st3)"
    by (cases "download_from_s3 E cfg s3_bucket s3_key st2")
  show ?thesis
  proof (cases r)
    case (Inl e)
    obtain now st4 where tt3: "time_time E st3 = (now, st4)"
      by (cases "time_time E st3")
    have h4: "history st4 = history st3 @ [TimeTime]"
      using tt3 time_time_simps(2) [of E st3] by simp
    have "snd (replicate_file E cfg s3_bucket s3_key st) = st4"
      using tt ex d Inl tt3
      by (simp add: replicate_file_def replicate_try_def replicate_except_def)
    with h4 have "history (snd (replicate_file E cfg s3_bucket s3_key st)) = history st3 @ [TimeTime]"
      by simp
    with d show ?thesis by simp
  next
    case (Inr stream)
    let ?st4 = "snd (time_time E st3)"
    let ?up = "upload_to_gcs E cfg stream (sanitize_gcs_object_name s3_key)
        (Some (replication_metadata s3_bucket s3_key (fst (time_time E st3)))) ?st4"
    have "prefix (history st3) (history ?st4)"
      by simp
    moreover have "prefix (history ?st4) (history (snd ?up))"
      by (rule upload_prefix)
    moreover have "prefix (history (snd ?up)) (history (snd (replicate_file E cfg s3_bucket s3_key st)))"
      using replicate_file_after_upload [OF ex] d Inr by simp
    ultimately have "prefix (history st3) (history (snd (replicate_file E cfg s3_bucket s3_key st)))"
      by (blast intro: prefix_order.trans)
    with d show ?thesis by simp
  qed
qed

lemma replicate_file_after_check:
  "prefix (history (snd (check_file_exists_in_gcs E cfg (sanitize_gcs_object_name s3_key)
              (snd (time_time E st)))))
     (history (snd (replicate_file E cfg s3_bucket s3_key st)))"
proof -
  obtain t0 st1 where tt: "time_time E st = (t0, st1)"
    by (cases "time_time E st")
  obtain r st2 where c: "check_file_exists_in_gcs E cfg (sanitize_gcs_object_name s3_key) st1
      = (r, st2)"
    by (cases "check_file_exists_in_gcs E cfg (sanitize_gcs_object_name s3_key) st1")
  show ?thesis
  proof (cases r)
    case (Inl e)
    obtain now st3 where tt2: "time_time E st2 = (now, st3)"
      by (cases "time_time E st2")
    have h3: "history st3 = history st2 @ [TimeTime]"
      using tt2 time_time_simps(2) [of E st2] by simp
    have "snd (replicate_file E cfg s3_bucket s3_key st) = st3"
      using tt c Inl tt2
      by (simp add: replicate_file_def replicate_try_def replicate_except_def)
    with h3 have "history (snd (replicate_file E cfg s3_bucket s3_key st)) = history st2 @ [TimeTime]"
      by simp
    with tt c show ?thesis by simp
  next
    case (Inr found)
    show ?thesis
    proof (cases found)
      case True
      obtain now st3 where tt2: "time_time E st2 = (now, st3)"
        by (cases "time_time E st2")
      have h3: "history st3 = history st2 @ [TimeTime]"
        using tt2 time_time_simps(2) [of E st2] by simp
      have "snd (replicate_file E cfg s3_bucket s3_key st) = st3"
        using tt c Inr True tt2
        by (simp add: replicate_file_def replicate_try_def)
      with h3 have "history (snd (replicate_file E cfg s3_bucket s3_key st)) = history st2 @ [TimeTime]"
        by simp
      with tt c show ?thesis by simp
    next
      case False
      with tt c Inr have ex: "check_file_exists_in_gcs E cfg (sanitize_gcs_object_name s3_key)
          (snd (time_time E st)) = (Inr False, st2)"
        by simp
      have "prefix (history st2) (history (snd (download_from_s3 E cfg s3_bucket s3_key st2)))"
        by (rule download_prefix)
      with replicate_file_after_download [OF ex]
      have "prefix (history st2) (history (snd (replicate_file E cfg s3_bucket s3_key st)))"
        by (blast intro: prefix_order.trans)
      with ex show ?thesis by simp
    qed
  qed
qed

subsection \<open>The retry fields of the configuration are never read\<close>

lemma gcs_client_retry_cfg:
  "gcs_client E (cfg\<lparr>max_retries := m, retry_delay := d, retry_backoff := b\<rparr>) st
     = gcs_client E cfg st"
  by (simp add: gcs_client_def cong: option.case_cong)

lemma target_bucket_retry_cfg:
  "target_bucket E (cfg\<lparr>max_retries := m, retry_delay := d, retry_backoff := b\<rparr>) st
     = target_bucket E cfg st"
  by (simp add: target_bucket_def gcs_client_retry_cfg
      cong: option.case_cong sum.case_cong prod.case_cong)

lemma check_file_exists_retry_cfg:
  "check_file_exists_in_gcs E (cfg\<lparr>max_retries := m, retry_delay := d, retry_backoff := b\<rparr>) name st
     = check_file_exists_in_gcs E cfg name st"
  by (simp add: check_file_exists_in_gcs_def target_bucket_retry_cfg
      cong: sum.case_cong prod.case_cong)

lemma s3_client_retry_cfg:
  "s3_client E (cfg\<lparr>max_retries := m, retry_delay := d, retry_backoff := b\<rparr>) st
     = s3_client E cfg st"
  by (simp add: s3_client_def cong: option.case_cong)

lemma download_func_retry_cfg:
  "download_from_s3_func E (cfg\<lparr>max_retries := m, retry_delay := d, retry_backoff := b\<rparr>)
       bucket key
     = download_from_s3_func E cfg bucket key"
  by (rule ext)
     (simp add: download_from_s3_func_def download_from_s3_try_def s3_client_retry_cfg
       cong: sum.case_cong prod.case_cong)

lemma download_retry_cfg:
  "download_from_s3 E (cfg\<lparr>max_retries := m, retry_delay := d, retry_backoff := b\<rparr>) bucket key
     = download_from_s3 E cfg bucket key"
  by (simp add: download_from_s3_def download_func_retry_cfg)

lemma upload_func_retry_cfg:
  "upload_to_gcs_func E (cfg\<lparr>max_retries := m, retry_delay := d, retry_backoff := b\<rparr>)
       stream name md
     = upload_to_gcs_func E cfg stream name md"
  by (rule ext)
     (simp add: upload_to_gcs_func_def upload_to_gcs_try_def target_bucket_retry_cfg
       cong: sum.case_cong prod.case_cong)

lemma upload_retry_cfg:
  "upload_to_gcs E (cfg\<lparr>max_retries := m, retry_delay := d, retry_backoff := b\<rparr>) stream name md
     = upload_to_gcs E cfg stream name md"
  by (simp add: upload_to_gcs_def upload_func_retry_cfg)

lemma replicate_file_retry_cfg:
  "replicate_file E (cfg\<lparr>max_retries := m, retry_delay := d, retry_backoff := b\<rparr>)
       s3_bucket s3_key st
     = replicate_file E cfg s3_bucket s3_key st"
  by (simp add: replicate_file_def replicate_try_def replicate_except_def
      check_file_exists_retry_cfg download_retry_cfg upload_retry_cfg
      cong: sum.case_cong prod.case_cong if_cong)

subsection \<open>A download that returns a stream\<close>

lemma retry_loop_success:
  "retry_loop m b func xs c lst st = (Inr v, st') \<Longrightarrow> \<exists>s. func s = (Inr v, st')"
proof (induction xs arbitrary: c lst st)
  case Nil
  then show ?case by simp
next
  case (Cons a xs)
  obtain r st1 where f: "func st = (r, st1)" by (cases "func st")
  show ?case
  proof (cases r)
    case (Inr w)
    with Cons.prems f have "func st = (Inr v, st')" by simp
    then show ?thesis by blast
  next
    case (Inl e)
    show ?thesis
    proof (cases "a = m \<or> c < 0")
      case True
      with Cons.prems f Inl show ?thesis by (auto simp: time_sleep_def split: if_splits)
    next
      case False
      with Cons.prems f Inl
      have "retry_loop m b func xs (c * b) (Some e)
          (st1\<lparr>history := history st1 @ [TimeSleep c]\<rparr>) = (Inr v, st')"
        by (simp add: time_sleep_def)
      then show ?thesis by (rule Cons.IH)
    qed
  qed
qed

lemma download_try_success:
  assumes "download_from_s3_try E cfg bucket key s = (Inr stream, st3)"
  shows "\<exists>s3_body. history st3 \<noteq> [] \<and> last (history st3) = GetObject bucket key
     \<and> get_object E (history st3) = Inr s3_body
     \<and> read_chunks (chunk_size cfg) s3_body [] = Inr stream"
  using assms
  by (auto simp: download_from_s3_try_def call_def split: prod.splits sum.splits)

lemma download_success:
  assumes "download_from_s3 E cfg bucket key st = (Inr stream, st3)"
  shows "\<exists>s3_body. history st3 \<noteq> [] \<and> last (history st3) = GetObject bucket key
     \<and> get_object E (history st3) = Inr s3_body
     \<and> stream = concat (chunks_read (chunk_size cfg) s3_body)"
proof -
  from assms obtain s where "download_from_s3_func E cfg bucket key s = (Inr stream, st3)"
    unfolding download_from_s3_def retry_with_backoff_def
    by (blast dest: retry_loop_success)
  then have "download_from_s3_try E cfg bucket key s = (Inr stream, st3)"
    by (auto simp: download_from_s3_func_def split: prod.splits sum.splits)
  from download_try_success [OF this] obtain s3_body where
    b: "history st3 \<noteq> []" "last (history st3) = GetObject bucket key"
      "get_object E (history st3) = Inr s3_body"
    and r: "read_chunks (chunk_size cfg) s3_body [] = Inr stream"
    by blast
  from read_chunks_concat [OF r] have "stream = concat (chunks_read (chunk_size cfg) s3_body)"
    by simp
  with b show ?thesis by blast
qed

section \<open>The claims\<close>

subsection \<open>C1: replicate never raises\<close>

text \<open>
  C1. Whatever the bucket, the key, the state of the replicator and the behaviour of the
  backends, \<open>replicate\<close> returns a dictionary and raises nothing; its status is one of
  \<open>skipped\<close>, \<open>success\<close>, \<open>failed\<close>, and the status is \<open>failed\<close> exactly when the
  dictionary carries an error message. The status is \<open>failed\<close> exactly when an exception
  leaves the existence check, the (retried) download or the (retried) upload, and then the
  error is the message of that exception: as it is for an \<open>S3DownloadError\<close> or a
  \<open>GCSUploadError\<close>, after \<open>Unexpected error:\<close> for any other.
\<close>

theorem replicate_never_raises:
  "\<exists>out st'. replicate_file E cfg s3_bucket s3_key st = (Inr out, st')
     \<and> map_of out ''status''
          \<in> {Some (PyStr ''skipped''), Some (PyStr ''success''), Some (PyStr ''failed'')}
     \<and> (map_of out ''status'' = Some (PyStr ''failed'')
          \<longleftrightarrow> (\<exists>msg. map_of out ''error'' = Some (PyStr msg)))
     \<and> (map_of out ''status'' = Some (PyStr ''failed'')
          \<longleftrightarrow> (\<exists>e. fst (check_file_exists_in_gcs E cfg (sanitize_gcs_object_name s3_key)
                         (snd (time_time E st))) = Inl e
                \<or> fst (check_file_exists_in_gcs E cfg (sanitize_gcs_object_name s3_key)
                         (snd (time_time E st))) = Inr False
                  \<and> (fst (download_from_s3 E cfg s3_bucket s3_key
                         (snd (check_file_exists_in_gcs E cfg (sanitize_gcs_object_name s3_key)
                           (snd (time_time E st))))) = Inl e
                     \<or> (\<exists>stream st3. download_from_s3 E cfg s3_bucket s3_key
                           (snd (check_file_exists_in_gcs E cfg (sanitize_gcs_object_name s3_key)
                             (snd (time_time E st)))) = (Inr stream, st3)
                         \<and> fst (upload_to_gcs E cfg stream (sanitize_gcs_object_name s3_key)
                               (Some (replication_metadata s3_bucket s3_key (fst (time_time E st3))))
                               (snd (time_time E st3))) = Inl e))))
     \<and> (\<forall>e. (fst (check_file_exists_in_gcs E cfg (sanitize_gcs_object_name s3_key)
                         (snd (time_time E st))) = Inl e
                \<or> fst (check_file_exists_in_gcs E cfg (sanitize_gcs_object_name s3_key)
                         (snd (time_time E st))) = Inr False
                  \<and> (fst (download_from_s3 E cfg s3_bucket s3_key
                         (snd (check_file_exists_in_gcs E cfg (sanitize_gcs_object_name s3_key)
                           (snd (time_time E st))))) = Inl e
                     \<or> (\<exists>stream st3. download_from_s3 E cfg s3_bucket s3_key
                           (snd (check_file_exists_in_gcs E cfg (sanitize_gcs_object_name s3_key)
                             (snd (time_time E st)))) = (Inr stream, st3)
                         \<and> fst (upload_to_gcs E cfg stream (sanitize_gcs_object_name s3_key)
                               (Some (replication_metadata s3_bucket s3_key (fst (time_time E st3))))
                               (snd (time_time E st3))) = Inl e)))
           \<longrightarrow> map_of out ''status'' = Some (PyStr ''failed'')
             \<and> map_of out ''error'' = Some (PyStr
                   (case e of
                      S3DownloadError m \<Rightarrow> m
                    | GCSUploadError m \<Rightarrow> m
                    | _ \<Rightarrow> ''Unexpected error: '' @ str_exn e)))"
proof -
  let ?name = "sanitize_gcs_object_name s3_key"
  obtain t0 st1 where tt: "time_time E st = (t0, st1)"
    by (cases "time_time E st")
  obtain c st2 where ch: "check_file_exists_in_gcs E cfg ?name st1 = (c, st2)"
    by (cases "check_file_exists_in_gcs E cfg ?name st1")
  obtain d st3 where dl: "download_from_s3 E cfg s3_bucket s3_key st2 = (d, st3)"
    by (cases "download_from_s3 E cfg s3_bucket s3_key st2")
  obtain stamp st4 where tt3: "time_time E st3 = (stamp, st4)"
    by (cases "time_time E st3")
  have msg: "\<And>e. replicate_error e =
      (case e of S3DownloadError m \<Rightarrow> m | GCSUploadError m \<Rightarrow> m
       | _ \<Rightarrow> ''Unexpected error: '' @ str_exn e)"
    by (simp add: replicate_error_def split: exn.splits)
  show ?thesis
  proof (cases c)
    case (Inl e)
    with tt ch show ?thesis
      by (auto simp: replicate_file_def replicate_try_def replicate_except_def msg
          split: prod.splits)
  next
    case (Inr found)
    show ?thesis
    proof (cases found)
      case True
      with tt ch Inr show ?thesis
        by (auto simp: replicate_file_def replicate_try_def split: prod.splits)
    next
      case False
      show ?thesis
      proof (cases d)
        case (Inl e)
        with tt ch Inr False dl show ?thesis
          by (auto simp: replicate_file_def replicate_try_def replicate_except_def msg
              split: prod.splits)
      next
        case d: (Inr stream)
        obtain u st5 where up: "upload_to_gcs E cfg stream ?name
            (Some (replication_metadata s3_bucket s3_key stamp)) st4 = (u, st5)"
          by (cases "upload_to_gcs E cfg stream ?name
            (Some (replication_metadata s3_bucket s3_key stamp)) st4")
        have "stamp = clock E (history st3 @ [TimeTime])"
          using tt3 time_time_simps(1) [of E st3] by simp
        with up have up': "upload_to_gcs E cfg stream ?name
            (Some (replication_metadata s3_bucket s3_key (clock E (history st3 @ [TimeTime])))) st4
            = (u, st5)"
          by simp
        show ?thesis
        proof (cases u)
          case (Inl e)
          with tt ch Inr False dl d tt3 up up' show ?thesis
            by (auto simp: replicate_file_def replicate_try_def replicate_except_def msg
                split: prod.splits)
        next
          case u: (Inr x)
          with tt ch Inr False dl d tt3 up up' show ?thesis
            by (auto simp: replicate_file_def replicate_try_def split: prod.splits)
        qed
      qed
    qed
  qed
qed

theorem replicate_never_raises_witness:
  "replicate_file env_fetch_fails cfg0 ''test-bucket'' ''test.csv'' init_state =
     (Inr [(''status'', PyStr ''failed''),
           (''error'', PyStr ''File not found: s3://test-bucket/test.csv''),
           (''source'', PyStr ''s3://test-bucket/test.csv''),
           (''destination'', PyStr ''gs://test-bucket/test.csv''),
           (''duration_seconds'', PyFloat 12)],
      \<lparr>s3_client_attr = Some 1, gcs_client_attr = Some 2, target_bucket_attr = Some 3,
         history = [TimeTime, StorageClient [], ClientBucket ''test-bucket'',
           BlobExists ''test.csv'', Boto3Client ''test_key'' ''test_secret'' ''us-east-1'',
           HeadObject ''test-bucket'' ''test.csv'', TimeSleep 1,
           HeadObject ''test-bucket'' ''test.csv'', TimeSleep 2,
           HeadObject ''test-bucket'' ''test.csv'', TimeSleep 4,
           HeadObject ''test-bucket'' ''test.csv'', TimeTime]\<rparr>)"
  using replicate_never_raises [of env_fetch_fails cfg0 "''test-bucket''" "''test.csv''" init_state]
  by (simp add: run_defs env_fetch_fails_def env_ok_def cfg0_def)

subsection \<open>C2: an existing destination is skipped\<close>

text \<open>
  C2. If the existence check answers true for the derived object name,
  \<open>replicate\<close> returns status \<open>skipped\<close> with the reason \<open>file_already_exists\<close>; after the
  check it only reads the clock, so the run makes no download call and no upload call.
\<close>

theorem existing_destination_skipped:
  assumes ex: "check_file_exists_in_gcs E cfg (sanitize_gcs_object_name s3_key)
                 (snd (time_time E st)) = (Inr True, st2)"
  shows "\<exists>out st'. replicate_file E cfg s3_bucket s3_key st = (Inr out, st')
     \<and> map_of out ''status'' = Some (PyStr ''skipped'')
     \<and> map_of out ''reason'' = Some (PyStr ''file_already_exists'')
     \<and> st' = snd (time_time E st2)
     \<and> filter is_fetch_call (history st') = filter is_fetch_call (history st)
     \<and> filter is_upload (history st') = filter is_upload (history st)"
proof -
  obtain t0 st1 where tt: "time_time E st = (t0, st1)"
    by (cases "time_time E st")
  with ex have ex1: "check_file_exists_in_gcs E cfg (sanitize_gcs_object_name s3_key) st1
      = (Inr True, st2)" by simp
  obtain t1 st3 where tt2: "time_time E st2 = (t1, st3)"
    by (cases "time_time E st2")
  have run: "replicate_file E cfg s3_bucket s3_key st =
     (Inr [(''status'', PyStr ''skipped''),
           (''reason'', PyStr ''file_already_exists''),
           (''source'', PyStr (''s3://'' @ s3_bucket @ ''/'' @ s3_key)),
           (''destination'',
              PyStr (''gs://'' @ target_gcs_bucket cfg @ ''/'' @ sanitize_gcs_object_name s3_key)),
           (''duration_seconds'', PyFloat (t1 - t0))], st3)"
    using tt ex1 tt2 by (simp add: replicate_file_def replicate_try_def)
  have h1: "history st1 = history st @ [TimeTime]"
    using tt time_time_simps(2) [of E st] by simp
  have h3: "history st3 = history st2 @ [TimeTime]"
    using tt2 time_time_simps(2) [of E st2] by simp
  have c: "filter is_fetch_call (history st2) = filter is_fetch_call (history st1)"
    "filter is_upload (history st2) = filter is_upload (history st1)"
    using check_file_exists_calls [of E cfg "sanitize_gcs_object_name s3_key" st1] ex1
    by simp_all
  from run tt2 h1 h3 c show ?thesis by simp
qed

theorem existing_destination_skipped_witness:
  "result_get (replicate_file env_present cfg0 ''test-bucket'' ''test.csv'' init_state) ''status''
     = Some (PyStr ''skipped'')
   \<and> result_get (replicate_file env_present cfg0 ''test-bucket'' ''test.csv'' init_state) ''reason''
     = Some (PyStr ''file_already_exists'')
   \<and> history (snd (replicate_file env_present cfg0 ''test-bucket'' ''test.csv'' init_state))
     = [TimeTime, StorageClient [], ClientBucket ''test-bucket'', BlobExists ''test.csv'', TimeTime]"
proof -
  have ex: "check_file_exists_in_gcs env_present cfg0 (sanitize_gcs_object_name ''test.csv'')
      (snd (time_time env_present init_state))
    = (Inr True, \<lparr>s3_client_attr = None, gcs_client_attr = Some 2, target_bucket_attr = Some 3,
         history = [TimeTime, StorageClient [], ClientBucket ''test-bucket'', BlobExists ''test.csv'']\<rparr>)"
    by (simp add: run_defs env_present_def env_ok_def cfg0_def)
  from existing_destination_skipped [OF ex, of "''test-bucket''"]
  show ?thesis
    by (auto simp: result_get_def time_time_def call_def)
qed

text \<open>
  The reason is not the text \<open>destination already exists\<close>: with the destination object
  present, the returned reason is \<open>file_already_exists\<close>.
\<close>

theorem skip_reason_counterexample:
  "fst (check_file_exists_in_gcs env_present cfg0 (sanitize_gcs_object_name ''test.csv'')
         (snd (time_time env_present init_state))) = Inr True
   \<and> result_get (replicate_file env_present cfg0 ''test-bucket'' ''test.csv'' init_state) ''reason''
       = Some (PyStr ''file_already_exists'')
   \<and> result_get (replicate_file env_present cfg0 ''test-bucket'' ''test.csv'' init_state) ''reason''
       \<noteq> Some (PyStr ''destination already exists'')"
  by (simp add: run_defs result_get_def env_present_def env_ok_def cfg0_def)

subsection \<open>C3: the retry parameters of the configuration\<close>

text \<open>
  C3. The retry behaviour does not follow the configuration: both decorators are written
  with the literals \<open>max_retries=3, delay=1.0, backoff=2.0\<close>, and \<open>replicate\<close> returns the
  same for every value of the configuration's \<open>max_retries\<close>, \<open>retry_delay\<close> and
  \<open>retry_backoff\<close> (lemma \<open>replicate_file_retry_cfg\<close>). With a configuration that asks
  for no retry, an initial delay of 5 and a multiplier of 3, a download that always fails is
  still attempted four times, with sleeps of 1, 2 and 4.
\<close>

theorem configured_retries_ignored:
  "max_retries cfg_no_retry = 0
   \<and> fst (replicate_file env_fetch_fails cfg_no_retry ''test-bucket'' ''test.csv'' init_state) =
       Inr [(''status'', PyStr ''failed''),
            (''error'', PyStr ''File not found: s3://test-bucket/test.csv''),
            (''source'', PyStr ''s3://test-bucket/test.csv''),
            (''destination'', PyStr ''gs://test-bucket/test.csv''),
            (''duration_seconds'', PyFloat 12)]
   \<and> history (snd (replicate_file env_fetch_fails cfg_no_retry ''test-bucket'' ''test.csv''
         init_state)) =
       [TimeTime, StorageClient [], ClientBucket ''test-bucket'', BlobExists ''test.csv'',
        Boto3Client ''test_key'' ''test_secret'' ''us-east-1'',
        HeadObject ''test-bucket'' ''test.csv'', TimeSleep 1,
        HeadObject ''test-bucket'' ''test.csv'', TimeSleep 2,
        HeadObject ''test-bucket'' ''test.csv'', TimeSleep 4,
        HeadObject ''test-bucket'' ''test.csv'', TimeTime]
   \<and> replicate_file env_fetch_fails cfg_no_retry ''test-bucket'' ''test.csv'' init_state
       = replicate_file env_fetch_fails cfg0 ''test-bucket'' ''test.csv'' init_state"
  by (simp add: run_defs env_fetch_fails_def env_ok_def cfg_no_retry_def cfg0_def)

subsection \<open>C4: the backoff executor when every attempt fails\<close>

text \<open>
  C4. Let an operation be wrapped with \<open>max_retries \<ge> 0\<close>, an initial delay \<open>> 0\<close> and a
  multiplier \<open>\<ge> 1\<close>, and let it fail on every attempt. Then it is invoked exactly
  \<open>max_retries + 1\<close> times, the executor sleeps exactly \<open>max_retries\<close> times, between the
  attempts, with the delays \<open>delay * backoff ^ i\<close> for \<open>i = 0, 1, ...\<close>, which never
  decrease, and the wrapper raises the very exception of the last invocation.
\<close>

theorem retry_exhausted:
  assumes m: "0 \<le> m" and d: "0 < d" and b: "1 \<le> b"
    and fails: "\<forall>h. isl (answer h)"
  shows "\<exists>e st'. retry_with_backoff m d b (invoke answer) st = (Inl e, st')
      \<and> history st' =
            history st @ concat (map (\<lambda>i. [Invoke, TimeSleep (d * b ^ i)]) [0..<nat m]) @ [Invoke]
      \<and> length (filter (\<lambda>ev. ev = Invoke) (drop (length (history st)) (history st'))) = nat m + 1
      \<and> sleeps (drop (length (history st)) (history st')) = map (\<lambda>i. d * b ^ i) [0..<nat m]
      \<and> sorted (sleeps (drop (length (history st)) (history st')))
      \<and> answer (history st') = Inl e"
proof -
  let ?f = "invoke answer"
  let ?S = "attempt_state ?f d b (nat m) st"
  let ?sched = "concat (map (\<lambda>i. [Invoke, TimeSleep (d * b ^ i)]) [0..<nat m])"
  have d0: "0 \<le> d" and b0: "0 \<le> b" using d b by simp_all
  have all: "\<forall>i\<le>nat m. isl (fst (?f (attempt_state ?f d b i st)))"
    using fails by (simp add: invoke_def)
  have run: "retry_with_backoff m d b ?f st = (Inl (projl (fst (?f ?S))), snd (?f ?S))"
    by (rule retry_exhausted_state [OF d0 b0 m all])
  have hS: "history ?S = history st @ ?sched"
    by (rule attempt_state_invoke_history [OF d0 b0])
  have hist: "history (snd (?f ?S)) = history st @ ?sched @ [Invoke]"
    using hS by (simp add: invoke_def)
  have ans: "answer (history (snd (?f ?S))) = Inl (projl (fst (?f ?S)))"
    using fails by (simp add: invoke_def)
  have cnt: "length (filter (\<lambda>ev. ev = Invoke) (?sched @ [Invoke])) = nat m + 1"
    by (simp add: filter_invoke_schedule)
  have sl: "sleeps (?sched @ [Invoke]) = map (\<lambda>i. d * b ^ i) [0..<nat m]"
    by (simp add: sleeps_append sleeps_schedule)
  have srt: "sorted (map (\<lambda>i. d * b ^ i) [0..<nat m])"
    by (rule delays_sorted [OF d b])
  show ?thesis
    using run hist ans cnt sl srt by simp
qed

theorem retry_exhausted_witness:
  "fst (retry_with_backoff 2 1 2
          (invoke (\<lambda>h. Inl (OtherException ''unavailable'') :: exn + unit)) init_state)
     = Inl (OtherException ''unavailable'')
   \<and> history (snd (retry_with_backoff 2 1 2
          (invoke (\<lambda>h. Inl (OtherException ''unavailable'') :: exn + unit)) init_state))
     = [Invoke, TimeSleep 1, Invoke, TimeSleep 2, Invoke]"
proof -
  have h: "\<forall>h. isl ((\<lambda>h. Inl (OtherException ''unavailable'') :: exn + unit) h)"
    by simp
  have m: "(0::int) \<le> 2" and d: "(0::real) < 1" and b: "(1::real) \<le> 2"
    by simp_all
  from retry_exhausted [OF m d b h, of init_state]
  show ?thesis
    by (auto simp: init_state_def upt_rec numeral_2_eq_2)
qed

subsection \<open>C5: errors of the existence check\<close>

text \<open>
  C5. If the existence query \<open>blob.exists()\<close> raises a \<open>GoogleCloudError\<close>, the
  check returns false, and the failure does not show in the outcome: \<open>replicate\<close> returns
  what it returns, and leaves the state it leaves, when the query answers false instead, so
  it goes on to the download and the upload.
\<close>

theorem gcs_error_in_existence_check_absorbed:
  assumes tb: "target_bucket E cfg (snd (time_time E st)) = (Inr h, st1)"
    and err: "blob_exists E (history st1 @ [BlobExists (sanitize_gcs_object_name s3_key)])
                = Inl (GoogleCloudError m)"
  shows "check_file_exists_in_gcs E cfg (sanitize_gcs_object_name s3_key) (snd (time_time E st))
           = (Inr False, st1\<lparr>history := history st1 @ [BlobExists (sanitize_gcs_object_name s3_key)]\<rparr>)
     \<and> replicate_file E cfg s3_bucket s3_key st
           = replicate_file (E\<lparr>blob_exists := (\<lambda>h. Inr False)\<rparr>) cfg s3_bucket s3_key st
     \<and> (\<exists>ev evs. history (snd (replicate_file E cfg s3_bucket s3_key st))
             = history st1 @ BlobExists (sanitize_gcs_object_name s3_key) # ev # evs
           \<and> ev \<in> {Boto3Client (aws_access_key_id cfg) (aws_secret_access_key cfg)
                       (aws_region cfg),
                     HeadObject s3_bucket s3_key})"
proof -
  let ?name = "sanitize_gcs_object_name s3_key"
  let ?E = "E\<lparr>blob_exists := (\<lambda>h. Inr False)\<rparr>"
  let ?st2 = "st1\<lparr>history := history st1 @ [BlobExists ?name]\<rparr>"
  have c: "check_file_exists_in_gcs E cfg ?name (snd (time_time E st)) = (Inr False, ?st2)"
    using tb err
    by (simp add: check_file_exists_in_gcs_def check_file_exists_except_def call_def)
  have c': "check_file_exists_in_gcs ?E cfg ?name (snd (time_time E st)) = (Inr False, ?st2)"
    using tb
    by (simp add: check_file_exists_in_gcs_def target_bucket_blob_exists call_def)
  obtain t0 st0 where tt: "time_time E st = (t0, st0)"
    by (cases "time_time E st")
  have "replicate_try E cfg s3_bucket s3_key t0 ?name st0
      = replicate_try ?E cfg s3_bucket s3_key t0 ?name st0"
    using c c' tt
    by (simp add: replicate_try_def download_blob_exists upload_blob_exists time_time_blob_exists
        cong: sum.case_cong prod.case_cong)
  then have same: "replicate_file E cfg s3_bucket s3_key st = replicate_file ?E cfg s3_bucket s3_key st"
    using tt
    by (simp add: replicate_file_def replicate_except_def time_time_blob_exists
        cong: sum.case_cong prod.case_cong)
  obtain ev evs where d1: "history (snd (download_from_s3 E cfg s3_bucket s3_key ?st2))
      = history ?st2 @ ev # evs"
    and d2: "ev \<in> {Boto3Client (aws_access_key_id cfg) (aws_secret_access_key cfg) (aws_region cfg),
                   HeadObject s3_bucket s3_key}"
    using download_first_call [of E cfg s3_bucket s3_key ?st2] by blast
  obtain zs where "history (snd (replicate_file E cfg s3_bucket s3_key st))
      = (history ?st2 @ ev # evs) @ zs"
    using replicate_file_after_download [OF c, of s3_bucket] d1 by (auto simp: prefix_def)
  with d2 have fetch: "\<exists>ev evs. history (snd (replicate_file E cfg s3_bucket s3_key st))
        = history st1 @ BlobExists ?name # ev # evs
      \<and> ev \<in> {Boto3Client (aws_access_key_id cfg) (aws_secret_access_key cfg) (aws_region cfg),
               HeadObject s3_bucket s3_key}"
    by auto
  from c same fetch show ?thesis by blast
qed

theorem gcs_error_in_existence_check_absorbed_witness:
  "check_file_exists_in_gcs env_exists_gce cfg0 ''test.csv'' (snd (time_time env_exists_gce init_state))
     = (Inr False,
        \<lparr>s3_client_attr = None, gcs_client_attr = Some 2, target_bucket_attr = Some 3,
           history = [TimeTime, StorageClient [], ClientBucket ''test-bucket'',
                      BlobExists ''test.csv'']\<rparr>)
   \<and> result_get (replicate_file env_exists_gce cfg0 ''test-bucket'' ''test.csv'' init_state) ''status''
     = Some (PyStr ''success'')
   \<and> replicate_file env_exists_gce cfg0 ''test-bucket'' ''test.csv'' init_state
     = replicate_file (env_exists_gce\<lparr>blob_exists := (\<lambda>h. Inr False)\<rparr>) cfg0
         ''test-bucket'' ''test.csv'' init_state"
proof -
  have tb: "target_bucket env_exists_gce cfg0 (snd (time_time env_exists_gce init_state))
     = (Inr 3, \<lparr>s3_client_attr = None, gcs_client_attr = Some 2, target_bucket_attr = Some 3,
           history = [TimeTime, StorageClient [], ClientBucket ''test-bucket'']\<rparr>)"
    by (simp add: run_defs env_exists_gce_def env_ok_def cfg0_def)
  have err: "blob_exists env_exists_gce
      (history \<lparr>s3_client_attr = None, gcs_client_attr = Some 2, target_bucket_attr = Some 3,
           history = [TimeTime, StorageClient [], ClientBucket ''test-bucket'']\<rparr>
        @ [BlobExists (sanitize_gcs_object_name ''test.csv'')])
     = Inl (GoogleCloudError ''503 backend error'')"
    by (simp add: env_exists_gce_def env_ok_def)
  have ok: "result_get (replicate_file env_exists_gce cfg0 ''test-bucket'' ''test.csv'' init_state)
       ''status'' = Some (PyStr ''success'')"
    by (simp add: run_defs result_get_def env_exists_gce_def env_ok_def cfg0_def test_data_def)
  from gcs_error_in_existence_check_absorbed [OF tb err, of "''test-bucket''"] ok
  show ?thesis
    by (simp add: sanitize_gcs_object_name_def)
qed

text \<open>
  An exception of any other class leaves the check and fails the replication: a transport
  error of the existence query, or the \<open>ReplicationError\<close> that \<open>target_bucket\<close> raises
  when the client, and with it the bucket handle, cannot be created. The outcome is
  \<open>failed\<close> and carries the message; nothing is downloaded or uploaded.
\<close>

theorem existence_error_surfaces_counterexample:
  "fst (check_file_exists_in_gcs env_exists_other cfg0 (sanitize_gcs_object_name ''test.csv'')
         (snd (time_time env_exists_other init_state))) = Inl (OtherException ''connection reset'')
   \<and> replicate_file env_exists_other cfg0 ''test-bucket'' ''test.csv'' init_state =
       (Inr [(''status'', PyStr ''failed''),
             (''error'', PyStr ''Unexpected error: connection reset''),
             (''source'', PyStr ''s3://test-bucket/test.csv''),
             (''destination'', PyStr ''gs://test-bucket/test.csv''),
             (''duration_seconds'', PyFloat 4)],
        \<lparr>s3_client_attr = None, gcs_client_attr = Some 2, target_bucket_attr = Some 3,
           history = [TimeTime, StorageClient [], ClientBucket ''test-bucket'',
                      BlobExists ''test.csv'', TimeTime]\<rparr>)
   \<and> fst (check_file_exists_in_gcs env_no_client cfg0 (sanitize_gcs_object_name ''test.csv'')
         (snd (time_time env_no_client init_state)))
       = Inl (ReplicationError (''Failed to access target GCS bucket: '' @
               ''GCS client initialization failed: credentials were not found''))
   \<and> replicate_file env_no_client cfg0 ''test-bucket'' ''test.csv'' init_state =
       (Inr [(''status'', PyStr ''failed''),
             (''error'',
                PyStr (''Unexpected error: Failed to access target GCS bucket: '' @
                  ''GCS client initialization failed: credentials were not found'')),
             (''source'', PyStr ''s3://test-bucket/test.csv''),
             (''destination'', PyStr ''gs://test-bucket/test.csv''),
             (''duration_seconds'', PyFloat 2)],
        \<lparr>s3_client_attr = None, gcs_client_attr = None, target_bucket_attr = None,
           history = [TimeTime, StorageClient [], TimeTime]\<rparr>)"
  by (simp add: run_defs env_exists_other_def env_no_client_def env_ok_def cfg0_def)

subsection \<open>C6: the fields of the outcome\<close>

text \<open>
  C6. The dictionary returned by \<open>replicate\<close> has the key \<open>size_bytes\<close> exactly when its
  status is \<open>success\<close>, the key \<open>reason\<close> exactly when it is \<open>skipped\<close>, and the key
  \<open>error\<close> exactly when it is \<open>failed\<close>; so exactly one of the three keys is present.
\<close>

theorem outcome_exactly_one_field:
  "\<exists>out. fst (replicate_file E cfg s3_bucket s3_key st) = Inr out
     \<and> (''size_bytes'' \<in> dom (map_of out) \<longleftrightarrow> map_of out ''status'' = Some (PyStr ''success''))
     \<and> (''reason'' \<in> dom (map_of out) \<longleftrightarrow> map_of out ''status'' = Some (PyStr ''skipped''))
     \<and> (''error'' \<in> dom (map_of out) \<longleftrightarrow> map_of out ''status'' = Some (PyStr ''failed''))
     \<and> card ({''size_bytes'', ''reason'', ''error''} \<inter> dom (map_of out)) = 1"
  by (auto simp: replicate_file_def replicate_try_def replicate_except_def
      split: prod.splits sum.splits)

theorem outcome_exactly_one_field_witness:
  "fst (replicate_file env_ok cfg0 ''src'' ''/data/file.csv'' init_state) =
     Inr [(''status'', PyStr ''success''),
          (''source'', PyStr ''s3://src//data/file.csv''),
          (''destination'', PyStr ''gs://test-bucket/data/file.csv''),
          (''duration_seconds'', PyFloat 9),
          (''size_bytes'', PyInt 4)]"
  using outcome_exactly_one_field [of env_ok cfg0 "''src''" "''/data/file.csv''" init_state]
  by (simp add: run_defs env_ok_def cfg0_def test_data_def)

subsection \<open>C7: the destination object name\<close>

lemma takeWhile_sep_replicate:
  "takeWhile (\<lambda>c. c = a) xs = replicate (length (takeWhile (\<lambda>c. c = a) xs)) a"
  by (induction xs) auto

text \<open>
  C7. For every key \<open>k\<close>, \<open>sanitize_gcs_object_name\<close> removes the leading run of \<open>/\<close>
  and nothing else: \<open>k\<close> is that run followed by the result, unchanged and in order, the
  result does not start with \<open>/\<close>, and sanitizing the result again returns it.
\<close>

theorem sanitize_strips_leading_separators:
  "k = replicate (length (takeWhile (\<lambda>c. c = CHR ''/'') k)) (CHR ''/'') @ sanitize_gcs_object_name k
   \<and> (\<forall>rest. sanitize_gcs_object_name k \<noteq> CHR ''/'' # rest)
   \<and> sanitize_gcs_object_name (sanitize_gcs_object_name k) = sanitize_gcs_object_name k"
proof -
  have "takeWhile (\<lambda>c. c = CHR ''/'') k @ dropWhile (\<lambda>c. c = CHR ''/'') k = k"
    by (rule takeWhile_dropWhile_id)
  then have a: "k = replicate (length (takeWhile (\<lambda>c. c = CHR ''/'') k)) (CHR ''/'')
      @ sanitize_gcs_object_name k"
    using takeWhile_sep_replicate [of "CHR ''/''" k]
    by (simp add: sanitize_gcs_object_name_def)
  have b: "\<forall>rest. sanitize_gcs_object_name k \<noteq> CHR ''/'' # rest"
    by (auto simp: sanitize_gcs_object_name_def dropWhile_eq_Cons_conv)
  have c: "sanitize_gcs_object_name (sanitize_gcs_object_name k) = sanitize_gcs_object_name k"
    by (simp add: sanitize_gcs_object_name_def)
  from a b c show ?thesis by blast
qed

theorem sanitize_strips_leading_separators_witness:
  "sanitize_gcs_object_name ''//data/file.csv'' = ''data/file.csv''
   \<and> ''//data/file.csv'' = replicate 2 (CHR ''/'') @ ''data/file.csv''"
  using sanitize_strips_leading_separators [of "''//data/file.csv''"]
  by (simp add: sanitize_gcs_object_name_def numeral_2_eq_2)

subsection \<open>C8: the outcome of a successful replication\<close>

text \<open>
  C8. Let the existence check answer false, let the (retried) download return a stream and
  the (retried) upload succeed. Then \<open>replicate\<close> returns status \<open>success\<close>. Its
  \<open>size_bytes\<close> is the number of bytes of that stream, which is the concatenation of the
  chunks that the body of the last \<open>get_object\<close> returned to \<open>read(chunk_size)\<close> before
  its first empty chunk. Its \<open>duration_seconds\<close> is the last clock reading minus the
  first, which is not negative when the clock never runs backwards.
\<close>

theorem successful_replication:
  assumes ex: "check_file_exists_in_gcs E cfg (sanitize_gcs_object_name s3_key)
                 (snd (time_time E st)) = (Inr False, st2)"
    and dl: "download_from_s3 E cfg s3_bucket s3_key st2 = (Inr stream, st3)"
    and up: "upload_to_gcs E cfg stream (sanitize_gcs_object_name s3_key)
                 (Some (replication_metadata s3_bucket s3_key (fst (time_time E st3))))
                 (snd (time_time E st3)) = (Inr (), st5)"
  shows "result_get (replicate_file E cfg s3_bucket s3_key st) ''status'' = Some (PyStr ''success'')
     \<and> result_get (replicate_file E cfg s3_bucket s3_key st) ''size_bytes''
         = Some (PyInt (int (length stream)))
     \<and> (\<exists>s3_body. last (history st3) = GetObject s3_bucket s3_key
           \<and> get_object E (history st3) = Inr s3_body
           \<and> stream = concat (chunks_read (chunk_size cfg) s3_body))
     \<and> result_get (replicate_file E cfg s3_bucket s3_key st) ''duration_seconds''
         = Some (PyFloat (clock E (history st5 @ [TimeTime]) - clock E (history st @ [TimeTime])))
     \<and> ((\<forall>h h'. prefix h h' \<longrightarrow> clock E h \<le> clock E h')
          \<longrightarrow> 0 \<le> clock E (history st5 @ [TimeTime]) - clock E (history st @ [TimeTime]))"
proof -
  let ?name = "sanitize_gcs_object_name s3_key"
  obtain t0 st1 where tt: "time_time E st = (t0, st1)"
    by (cases "time_time E st")
  have h1: "history st1 = history st @ [TimeTime]" and t0: "t0 = clock E (history st @ [TimeTime])"
    using tt time_time_simps(1,2) [of E st] by simp_all
  from ex tt have ex1: "check_file_exists_in_gcs E cfg ?name st1 = (Inr False, st2)"
    by simp
  have p2: "prefix (history st1) (history st2)"
    using check_file_exists_prefix [of st1 E cfg ?name] ex1 by simp
  have p3: "prefix (history st2) (history st3)"
    using download_prefix [of st2 E cfg s3_bucket s3_key] dl by simp
  obtain stamp st4 where tt3: "time_time E st3 = (stamp, st4)"
    by (cases "time_time E st3")
  have h4: "history st4 = history st3 @ [TimeTime]"
    using tt3 time_time_simps(2) [of E st3] by simp
  let ?md = "Some (replication_metadata s3_bucket s3_key stamp)"
  from up tt3 have up5: "upload_to_gcs E cfg stream ?name ?md st4 = (Inr (), st5)"
    by simp
  have p5: "prefix (history st4) (history st5)"
    using upload_prefix [of st4 E cfg stream ?name ?md] up5 by simp
  obtain now st6 where tt5: "time_time E st5 = (now, st6)"
    by (cases "time_time E st5")
  have now: "now = clock E (history st5 @ [TimeTime])"
    using tt5 time_time_simps(1) [of E st5] by simp
  have "prefix (history st1) (history st4)"
    using p2 p3 h4 by (metis prefix_order.trans prefix_prefix)
  with p5 have pre: "prefix (history st @ [TimeTime]) (history st5 @ [TimeTime])"
    using h1 by (metis prefix_order.trans prefix_prefix)
  have run: "replicate_file E cfg s3_bucket s3_key st =
     (Inr [(''status'', PyStr ''success''),
           (''source'', PyStr (''s3://'' @ s3_bucket @ ''/'' @ s3_key)),
           (''destination'', PyStr (''gs://'' @ target_gcs_bucket cfg @ ''/'' @ ?name)),
           (''duration_seconds'', PyFloat (now - t0)),
           (''size_bytes'', PyInt (int (length stream)))], st6)"
    using tt ex1 dl tt3 up5 tt5 by (simp add: replicate_file_def replicate_try_def)
  have body: "\<exists>s3_body. last (history st3) = GetObject s3_bucket s3_key
      \<and> get_object E (history st3) = Inr s3_body
      \<and> stream = concat (chunks_read (chunk_size cfg) s3_body)"
    using download_success [OF dl] by blast
  have mono: "(\<forall>h h'. prefix h h' \<longrightarrow> clock E h \<le> clock E h')
      \<longrightarrow> 0 \<le> clock E (history st5 @ [TimeTime]) - clock E (history st @ [TimeTime])"
    using pre by auto
  from run body mono t0 now show ?thesis
    by (simp add: result_get_def)
qed

theorem successful_replication_witness:
  "result_get (replicate_file env_ok cfg0 ''src'' ''/data/file.csv'' init_state) ''status''
     = Some (PyStr ''success'')
   \<and> result_get (replicate_file env_ok cfg0 ''src'' ''/data/file.csv'' init_state) ''size_bytes''
     = Some (PyInt 4)
   \<and> concat (chunks_read (chunk_size cfg0) [\<lambda>amt. Inr test_data, \<lambda>amt. Inr []]) = test_data
   \<and> result_get (replicate_file env_ok cfg0 ''src'' ''/data/file.csv'' init_state)
        ''duration_seconds'' = Some (PyFloat 9)
   \<and> (0::real) \<le> 9"
proof -
  let ?h0 = "[TimeTime, StorageClient [], ClientBucket ''test-bucket'', BlobExists ''data/file.csv'']"
  let ?h3 = "?h0 @ [Boto3Client ''test_key'' ''test_secret'' ''us-east-1'',
                    HeadObject ''src'' ''/data/file.csv'', GetObject ''src'' ''/data/file.csv'']"
  let ?md = "Some [(''source_bucket'', ''src''), (''source_key'', ''/data/file.csv''),
                   (''replication_timestamp'', ''8''), (''replicator_version'', ''1.0.0'')]"
  let ?st2 = "\<lparr>s3_client_attr = None, gcs_client_attr = Some 2, target_bucket_attr = Some 3,
      history = ?h0\<rparr>"
  let ?st3 = "\<lparr>s3_client_attr = Some 1, gcs_client_attr = Some 2, target_bucket_attr = Some 3,
      history = ?h3\<rparr>"
  let ?st5 = "\<lparr>s3_client_attr = Some 1, gcs_client_attr = Some 2, target_bucket_attr = Some 3,
      history = ?h3 @ [TimeTime, UploadFromFile test_data ''data/file.csv'' ?md]\<rparr>"
  have ex: "check_file_exists_in_gcs env_ok cfg0 (sanitize_gcs_object_name ''/data/file.csv'')
      (snd (time_time env_ok init_state)) = (Inr False, ?st2)"
    by (simp add: run_defs env_ok_def cfg0_def)
  have dl: "download_from_s3 env_ok cfg0 ''src'' ''/data/file.csv'' ?st2 = (Inr test_data, ?st3)"
    by (simp add: run_defs env_ok_def cfg0_def)
  have up: "upload_to_gcs env_ok cfg0 test_data (sanitize_gcs_object_name ''/data/file.csv'')
      (Some (replication_metadata ''src'' ''/data/file.csv'' (fst (time_time env_ok ?st3))))
      (snd (time_time env_ok ?st3)) = (Inr (), ?st5)"
    by (simp add: run_defs env_ok_def cfg0_def)
  have chunks: "concat (chunks_read (chunk_size cfg0) [\<lambda>amt. Inr test_data, \<lambda>amt. Inr []])
      = test_data"
    by (simp add: chunks_read_def test_data_def)
  from successful_replication [OF ex dl up] env_ok_clock_mono chunks
  show ?thesis
    by (simp add: test_data_def env_ok_def init_state_def)
qed

text \<open>
  \<open>time.time\<close> is the wall clock: when it is set back during the call, a successful
  replication reports a negative duration. And the bytes the download produces are not always
  the whole object: with a chunk size of 0 the first read of a file-like body is empty, the
  loop ends, and a successful replication reports 0 bytes for an object of 4.
\<close>

theorem duration_and_size_counterexample:
  "check_file_exists_in_gcs env_clock_back cfg0 (sanitize_gcs_object_name ''k'')
       (snd (time_time env_clock_back init_state))
     = (Inr False,
        \<lparr>s3_client_attr = None, gcs_client_attr = Some 2, target_bucket_attr = Some 3,
           history = [TimeTime, StorageClient [], ClientBucket ''test-bucket'', BlobExists ''k'']\<rparr>)
   \<and> fst (download_from_s3 env_clock_back cfg0 ''src'' ''k''
        \<lparr>s3_client_attr = None, gcs_client_attr = Some 2, target_bucket_attr = Some 3,
           history = [TimeTime, StorageClient [], ClientBucket ''test-bucket'', BlobExists ''k'']\<rparr>)
     = Inr test_data
   \<and> result_get (replicate_file env_clock_back cfg0 ''src'' ''k'' init_state) ''status''
     = Some (PyStr ''success'')
   \<and> length (filter is_upload
         (history (snd (replicate_file env_clock_back cfg0 ''src'' ''k'' init_state)))) = 1
   \<and> result_get (replicate_file env_clock_back cfg0 ''src'' ''k'' init_state) ''duration_seconds''
     = Some (PyFloat (- 9))
   \<and> \<not> (0::real) \<le> - 9
   \<and> result_get (replicate_file env_file_body cfg_chunk0 ''src'' ''k'' init_state) ''status''
     = Some (PyStr ''success'')
   \<and> result_get (replicate_file env_file_body cfg_chunk0 ''src'' ''k'' init_state) ''size_bytes''
     = Some (PyInt 0)
   \<and> result_get (replicate_file env_file_body cfg0 ''src'' ''k'' init_state) ''size_bytes''
     = Some (PyInt 4)"
  by (simp add: run_defs result_get_def env_clock_back_def env_file_body_def file_like_body_def
      cfg_chunk0_def env_ok_def cfg0_def test_data_def)

subsection \<open>C9: a download that succeeds on its last attempt\<close>

text \<open>
  C9. Let the existence check answer false, let the download fail on its first three
  attempts (three is \<open>max_retries\<close>, the retry budget of the decorator) and succeed on
  the fourth, each attempt starting where the backoff schedule puts it, and let the upload
  succeed when it is called. Then \<open>replicate\<close> returns status \<open>success\<close>, and the run
  makes exactly one upload call.
\<close>

theorem fetch_retried_then_success:
  assumes ex: "check_file_exists_in_gcs E cfg (sanitize_gcs_object_name s3_key)
                 (snd (time_time E st)) = (Inr False, st2)"
    and fails: "\<forall>i<3. isl (fst (download_from_s3_func E cfg s3_bucket s3_key
                 (attempt_state (download_from_s3_func E cfg s3_bucket s3_key) 1 2 i st2)))"
    and ok: "download_from_s3_func E cfg s3_bucket s3_key
                 (attempt_state (download_from_s3_func E cfg s3_bucket s3_key) 1 2 3 st2)
               = (Inr stream, st3)"
    and wr: "fst (upload_to_gcs_func E cfg stream (sanitize_gcs_object_name s3_key)
                 (Some (replication_metadata s3_bucket s3_key (fst (time_time E st3))))
                 (snd (time_time E st3))) = Inr ()"
  shows "result_get (replicate_file E cfg s3_bucket s3_key st) ''status'' = Some (PyStr ''success'')
     \<and> length (filter is_upload (history (snd (replicate_file E cfg s3_bucket s3_key st))))
         = length (filter is_upload (history st)) + 1"
proof -
  let ?name = "sanitize_gcs_object_name s3_key"
  let ?f = "download_from_s3_func E cfg s3_bucket s3_key"
  obtain t0 st1 where tt: "time_time E st = (t0, st1)"
    by (cases "time_time E st")
  have h1: "history st1 = history st @ [TimeTime]"
    using tt time_time_simps(2) [of E st] by simp
  from ex tt have ex1: "check_file_exists_in_gcs E cfg ?name st1 = (Inr False, st2)"
    by simp
  from check_file_exists_returns [OF ex1] obtain h where c2: "target_bucket_attr st2 = Some h"
    by blast
  have u2: "filter is_upload (history st2) = filter is_upload (history st1)"
    using check_file_exists_calls(2) [of E cfg ?name st1] ex1 by simp
  have "retry_with_backoff 3 1 2 ?f st2 = (Inr stream, snd (?f (attempt_state ?f 1 2 3 st2)))"
    using fails ok by (intro retry_succeeds_at) simp_all
  with ok have dl: "download_from_s3 E cfg s3_bucket s3_key st2 = (Inr stream, st3)"
    by (simp add: download_from_s3_def)
  have k3: "target_bucket_attr st3 = Some h"
    "filter is_upload (history st3) = filter is_upload (history st2)"
    using download_keeps [of E cfg s3_bucket s3_key st2] dl c2 by simp_all
  obtain stamp st4 where tt3: "time_time E st3 = (stamp, st4)"
    by (cases "time_time E st3")
  have h4: "history st4 = history st3 @ [TimeTime]" and c4: "target_bucket_attr st4 = Some h"
    using tt3 time_time_simps(2,5) [of E st3] k3 by simp_all
  let ?md = "Some (replication_metadata s3_bucket s3_key stamp)"
  from wr tt3 have wr4: "fst (upload_to_gcs_func E cfg stream ?name ?md st4) = Inr ()"
    by simp
  let ?st5 = "st4\<lparr>history := history st4 @ [UploadFromFile stream ?name (blob_metadata ?md)]\<rparr>"
  have "upload_to_gcs_func E cfg stream ?name ?md st4 = (Inr (), ?st5)"
    using wr4 upload_func_when_cached [OF c4, of E cfg stream ?name ?md]
    by (simp split: sum.splits)
  with upload_first_attempt [OF wr4]
  have up: "upload_to_gcs E cfg stream ?name ?md st4 = (Inr (), ?st5)"
    by simp
  obtain now st6 where tt5: "time_time E ?st5 = (now, st6)"
    by (cases "time_time E ?st5")
  have h6: "history st6 = history ?st5 @ [TimeTime]"
    using tt5 time_time_simps(2) [of E ?st5] by simp
  have run: "replicate_file E cfg s3_bucket s3_key st =
     (Inr [(''status'', PyStr ''success''),
           (''source'', PyStr (''s3://'' @ s3_bucket @ ''/'' @ s3_key)),
           (''destination'', PyStr (''gs://'' @ target_gcs_bucket cfg @ ''/'' @ ?name)),
           (''duration_seconds'', PyFloat (now - t0)),
           (''size_bytes'', PyInt (int (length stream)))], st6)"
    using tt ex1 dl tt3 up tt5 by (simp add: replicate_file_def replicate_try_def)
  have "filter is_upload (history st6) =
      filter is_upload (history st) @ [UploadFromFile stream ?name (blob_metadata ?md)]"
    using h6 h4 k3(2) u2 h1 by simp
  with run show ?thesis by (simp add: result_get_def)
qed

theorem fetch_retried_then_success_witness:
  "result_get (replicate_file env_flaky cfg0 ''src'' ''/data/file.csv'' init_state) ''status''
     = Some (PyStr ''success'')
   \<and> length (filter is_upload
        (history (snd (replicate_file env_flaky cfg0 ''src'' ''/data/file.csv'' init_state)))) = 1"
proof -
  let ?f = "download_from_s3_func env_flaky cfg0 ''src'' ''/data/file.csv''"
  let ?h0 = "[TimeTime, StorageClient [], ClientBucket ''test-bucket'', BlobExists ''data/file.csv'']"
  let ?boto = "Boto3Client ''test_key'' ''test_secret'' ''us-east-1''"
  let ?head = "HeadObject ''src'' ''/data/file.csv''"
  let ?err = "S3DownloadError ''Unexpected error during S3 download: timed out''"
  let ?st2 = "\<lparr>s3_client_attr = None, gcs_client_attr = Some 2, target_bucket_attr = Some 3,
      history = ?h0\<rparr>"
  let ?s1 = "\<lparr>s3_client_attr = Some 1, gcs_client_attr = Some 2, target_bucket_attr = Some 3,
      history = ?h0 @ [?boto, ?head, TimeSleep 1]\<rparr>"
  let ?s2 = "\<lparr>s3_client_attr = Some 1, gcs_client_attr = Some 2, target_bucket_attr = Some 3,
      history = ?h0 @ [?boto, ?head, TimeSleep 1, ?head, TimeSleep 2]\<rparr>"
  let ?s3 = "\<lparr>s3_client_attr = Some 1, gcs_client_attr = Some 2, target_bucket_attr = Some 3,
      history = ?h0 @ [?boto, ?head, TimeSleep 1, ?head, TimeSleep 2, ?head, TimeSleep 4]\<rparr>"
  let ?st3 = "\<lparr>s3_client_attr = Some 1, gcs_client_attr = Some 2, target_bucket_attr = Some 3,
      history = ?h0 @ [?boto, ?head, TimeSleep 1, ?head, TimeSleep 2, ?head, TimeSleep 4, ?head,
                       GetObject ''src'' ''/data/file.csv'']\<rparr>"
  have ex: "check_file_exists_in_gcs env_flaky cfg0 (sanitize_gcs_object_name ''/data/file.csv'')
      (snd (time_time env_flaky init_state)) = (Inr False, ?st2)"
    by (simp add: run_defs env_flaky_def env_ok_def cfg0_def)
  have f0: "?f ?st2 = (Inl ?err, \<lparr>s3_client_attr = Some 1, gcs_client_attr = Some 2,
      target_bucket_attr = Some 3, history = ?h0 @ [?boto, ?head]\<rparr>)"
    by (simp add: run_defs env_flaky_def env_ok_def cfg0_def)
  have f1: "?f ?s1 = (Inl ?err, \<lparr>s3_client_attr = Some 1, gcs_client_attr = Some 2,
      target_bucket_attr = Some 3, history = ?h0 @ [?boto, ?head, TimeSleep 1, ?head]\<rparr>)"
    by (simp add: run_defs env_flaky_def env_ok_def cfg0_def)
  have f2: "?f ?s2 = (Inl ?err, \<lparr>s3_client_attr = Some 1, gcs_client_attr = Some 2,
      target_bucket_attr = Some 3,
      history = ?h0 @ [?boto, ?head, TimeSleep 1, ?head, TimeSleep 2, ?head]\<rparr>)"
    by (simp add: run_defs env_flaky_def env_ok_def cfg0_def)
  have f3: "?f ?s3 = (Inr test_data, ?st3)"
    by (simp add: run_defs env_flaky_def env_ok_def cfg0_def)
  have a0: "attempt_state ?f 1 2 0 ?st2 = ?st2"
    by simp
  have a1: "attempt_state ?f 1 2 (Suc 0) ?st2 = ?s1"
    by (simp only: attempt_state.simps f0) (simp add: time_sleep_def)
  have a2: "attempt_state ?f 1 2 (Suc (Suc 0)) ?st2 = ?s2"
    by (simp only: attempt_state.simps(2) [of _ _ _ "Suc 0"] a1 f1) (simp add: time_sleep_def)
  have a3s: "attempt_state ?f 1 2 (Suc (Suc (Suc 0))) ?st2 = ?s3"
    by (simp only: attempt_state.simps(2) [of _ _ _ "Suc (Suc 0)"] a2 f2)
       (simp add: time_sleep_def)
  have n3: "attempt_state ?f 1 2 3 ?st2 = attempt_state ?f 1 2 (Suc (Suc (Suc 0))) ?st2"
    by (simp only: numeral_3_eq_3)
  have a3: "attempt_state ?f 1 2 3 ?st2 = ?s3"
    by (rule trans [OF n3 a3s])
  have fails: "\<forall>i<3. isl (fst (?f (attempt_state ?f 1 2 i ?st2)))"
    unfolding all_less_3 by (simp only: a0 a1 a2 f0 f1 f2) simp
  have ok: "?f (attempt_state ?f 1 2 3 ?st2) = (Inr test_data, ?st3)"
    by (simp only: a3 f3)
  have wr: "fst (upload_to_gcs_func env_flaky cfg0 test_data
      (sanitize_gcs_object_name ''/data/file.csv'')
      (Some (replication_metadata ''src'' ''/data/file.csv'' (fst (time_time env_flaky ?st3))))
      (snd (time_time env_flaky ?st3))) = Inr ()"
    by (simp add: run_defs env_flaky_def env_ok_def cfg0_def)
  from fetch_retried_then_success [OF ex fails ok wr]
  show ?thesis
    by (simp add: init_state_def)
qed

subsection \<open>C10: a key made of separators only\<close>

text \<open>
  C10. For a source key that consists of \<open>/\<close> only, the derived object name is empty, and
  \<open>replicate\<close> does not reject the key: it runs the existence check for the empty name,
  and when the check answers false (its last call was then the existence query for the empty
  name) it goes on to the download, of the source key as given, and, once a stream is
  there, to the upload to the empty object name.
\<close>

theorem separator_only_key_not_rejected:
  assumes sep: "\<forall>c\<in>set s3_key. c = CHR ''/''"
  shows "sanitize_gcs_object_name s3_key = []
     \<and> prefix (history (snd (check_file_exists_in_gcs E cfg [] (snd (time_time E st)))))
         (history (snd (replicate_file E cfg s3_bucket s3_key st)))
     \<and> (\<forall>st2. check_file_exists_in_gcs E cfg [] (snd (time_time E st)) = (Inr False, st2) \<longrightarrow>
          last (history st2) = BlobExists []
          \<and> (\<exists>ev evs. history (snd (replicate_file E cfg s3_bucket s3_key st))
                        = history st2 @ ev # evs
                \<and> ev \<in> {Boto3Client (aws_access_key_id cfg) (aws_secret_access_key cfg)
                            (aws_region cfg),
                         HeadObject s3_bucket s3_key})
          \<and> (\<forall>stream st3. download_from_s3 E cfg s3_bucket s3_key st2 = (Inr stream, st3) \<longrightarrow>
                UploadFromFile stream []
                    (Some (replication_metadata s3_bucket s3_key (fst (time_time E st3))))
                  \<in> set (history (snd (replicate_file E cfg s3_bucket s3_key st)))))"
proof -
  let ?final = "history (snd (replicate_file E cfg s3_bucket s3_key st))"
  have name: "sanitize_gcs_object_name s3_key = []"
    using sep by (simp add: sanitize_gcs_object_name_def)
  have chk: "prefix (history (snd (check_file_exists_in_gcs E cfg [] (snd (time_time E st))))) ?final"
    using replicate_file_after_check [of E cfg s3_key st s3_bucket] name by simp
  have rest: "last (history st2) = BlobExists []
      \<and> (\<exists>ev evs. ?final = history st2 @ ev # evs
            \<and> ev \<in> {Boto3Client (aws_access_key_id cfg) (aws_secret_access_key cfg) (aws_region cfg),
                     HeadObject s3_bucket s3_key})
      \<and> (\<forall>stream st3. download_from_s3 E cfg s3_bucket s3_key st2 = (Inr stream, st3) \<longrightarrow>
            UploadFromFile stream []
                (Some (replication_metadata s3_bucket s3_key (fst (time_time E st3))))
              \<in> set ?final)"
    if ex0: "check_file_exists_in_gcs E cfg [] (snd (time_time E st)) = (Inr False, st2)" for st2
  proof -
    from ex0 name have ex: "check_file_exists_in_gcs E cfg (sanitize_gcs_object_name s3_key)
        (snd (time_time E st)) = (Inr False, st2)"
      by simp
    from check_file_exists_returns [OF ex0] obtain h st1 where
      st2: "st2 = st1\<lparr>history := history st1 @ [BlobExists []]\<rparr>"
      and c2: "target_bucket_attr st2 = Some h"
      by blast
    from st2 have a: "last (history st2) = BlobExists []"
      by simp
    obtain ev evs where d1: "history (snd (download_from_s3 E cfg s3_bucket s3_key st2))
        = history st2 @ ev # evs"
      and d2: "ev \<in> {Boto3Client (aws_access_key_id cfg) (aws_secret_access_key cfg) (aws_region cfg),
                     HeadObject s3_bucket s3_key}"
      using download_first_call [of E cfg s3_bucket s3_key st2] by blast
    obtain zs where "?final = (history st2 @ ev # evs) @ zs"
      using replicate_file_after_download [OF ex, of s3_bucket] d1 by (auto simp: prefix_def)
    with d2 have b: "\<exists>ev evs. ?final = history st2 @ ev # evs
        \<and> ev \<in> {Boto3Client (aws_access_key_id cfg) (aws_secret_access_key cfg) (aws_region cfg),
                 HeadObject s3_bucket s3_key}"
      by auto
    have c: "UploadFromFile stream []
          (Some (replication_metadata s3_bucket s3_key (fst (time_time E st3)))) \<in> set ?final"
      if dl: "download_from_s3 E cfg s3_bucket s3_key st2 = (Inr stream, st3)" for stream st3
    proof -
      let ?st4 = "snd (time_time E st3)"
      let ?md = "replication_metadata s3_bucket s3_key (fst (time_time E st3))"
      have "target_bucket_attr st3 = Some h"
        using download_keeps [of E cfg s3_bucket s3_key st2] dl c2 by simp
      then have c4: "target_bucket_attr ?st4 = Some h"
        by simp
      have "history (snd (upload_to_gcs_func E cfg stream [] (Some ?md) ?st4))
          = history ?st4 @ [UploadFromFile stream [] (Some ?md)]"
        using upload_func_when_cached [OF c4, of E cfg stream "[]" "Some ?md"]
        by (simp add: blob_metadata_def replication_metadata_def)
      then have "UploadFromFile stream [] (Some ?md)
          \<in> set (history (snd (upload_to_gcs_func E cfg stream [] (Some ?md) ?st4)))"
        by simp
      moreover have "prefix (history (snd (upload_to_gcs_func E cfg stream [] (Some ?md) ?st4)))
          (history (snd (upload_to_gcs E cfg stream [] (Some ?md) ?st4)))"
        by (rule upload_first_attempt_prefix)
      moreover have "prefix (history (snd (upload_to_gcs E cfg stream [] (Some ?md) ?st4))) ?final"
        using replicate_file_after_upload [OF ex dl] name by simp
      ultimately show ?thesis
        by (meson prefix_order.trans set_mono_prefix subsetD)
    qed
    from a b c show ?thesis by blast
  qed
  from name chk rest show ?thesis by blast
qed

theorem separator_only_key_not_rejected_witness:
  "sanitize_gcs_object_name ''///'' = []
   \<and> history (snd (replicate_file env_ok cfg0 ''src'' ''///'' init_state)) =
       [TimeTime, StorageClient [], ClientBucket ''test-bucket'', BlobExists [],
        Boto3Client ''test_key'' ''test_secret'' ''us-east-1'',
        HeadObject ''src'' ''///'', GetObject ''src'' ''///'', TimeTime,
        UploadFromFile test_data []
          (Some [(''source_bucket'', ''src''), (''source_key'', ''///''),
                 (''replication_timestamp'', ''8''), (''replicator_version'', ''1.0.0'')]),
        TimeTime]
   \<and> result_get (replicate_file env_ok cfg0 ''src'' ''///'' init_state) ''destination''
       = Some (PyStr ''gs://test-bucket/'')"
proof -
  have sep: "\<forall>c\<in>set ''///''. c = CHR ''/''"
    by simp
  have run: "history (snd (replicate_file env_ok cfg0 ''src'' ''///'' init_state)) =
       [TimeTime, StorageClient [], ClientBucket ''test-bucket'', BlobExists [],
        Boto3Client ''test_key'' ''test_secret'' ''us-east-1'',
        HeadObject ''src'' ''///'', GetObject ''src'' ''///'', TimeTime,
        UploadFromFile test_data []
          (Some [(''source_bucket'', ''src''), (''source_key'', ''///''),
                 (''replication_timestamp'', ''8''), (''replicator_version'', ''1.0.0'')]),
        TimeTime]"
    "result_get (replicate_file env_ok cfg0 ''src'' ''///'' init_state) ''destination''
       = Some (PyStr ''gs://test-bucket/'')"
    by (simp_all add: run_defs result_get_def env_ok_def cfg0_def)
  from separator_only_key_not_rejected [OF sep, of env_ok cfg0 init_state "''src''"] run
  show ?thesis
    by simp
qed

end
